theory Spec2Isabelle
  imports Complex_Main "HOL-Library.Sublist"
begin

section \<open>JavaScript values, decimal rendering, conformance checks\<close>

text \<open>
  The values that flow through the scenarios (parsed JSON-RPC bodies, the free-form
  \<open>details\<close> of a check) are JavaScript values. \<open>JUndefined\<close> is the value of a property
  that is absent; an object is the list of its own properties.
\<close>

datatype jsval =
    JUndefined
  | JNull
  | JBool bool
  | JNum real
  | JStr string
  | JArr "jsval list"
  | JObj "(string \<times> jsval) list"

text \<open>
  Template literals such as \<open>`event-${this.eventIdCounter}`\<close> render a counter in decimal.
  The counters are JavaScript numbers that start at 0 and are only ever incremented by 1;
  they are modelled as naturals (exact for every count below \<open>2^53\<close>).
\<close>

definition digit_char :: "nat \<Rightarrow> char" where
  "digit_char d = ''0123456789'' ! d"

fun string_of_nat :: "nat \<Rightarrow> string" where
  "string_of_nat n =
     (if n < 10 then [digit_char n]
      else string_of_nat (n div 10) @ [digit_char (n mod 10)])"

declare string_of_nat.simps [simp del]

text \<open>\<open>Array.prototype.join\<close> on strings.\<close>

fun join :: "string \<Rightarrow> string list \<Rightarrow> string" where
  "join sep [] = []"
| "join sep [x] = x"
| "join sep (x # y # ys) = x @ sep @ join sep (y # ys)"

text \<open>Reading a decimal numeral back; used to speak about the numeric part of an event id.\<close>

definition digit_val :: "char \<Rightarrow> nat" where
  "digit_val c = of_char c - 48"

definition nat_of_string :: "string \<Rightarrow> nat" where
  "nat_of_string s = foldl (\<lambda>acc c. 10 * acc + digit_val c) 0 s"

text \<open>
  \<open>Number.prototype.toFixed(0)\<close>: the sign, then the nearest integer to the absolute
  value, the larger one on a tie (in decimal digits, as it is for every magnitude below
  \<open>10^21\<close>). \<open>Math.round\<close>: the nearest integer, the larger one on a tie. Time stamps of
  \<open>performance.now()\<close> are finite doubles, read here as reals; a comparison of doubles is
  the comparison of the reals they denote.
\<close>

definition toFixed0 :: "real \<Rightarrow> string" where
  "toFixed0 x =
     (if x < 0 then ''-'' @ string_of_nat (nat \<lfloor>- x + 1 / 2\<rfloor>)
      else string_of_nat (nat \<lfloor>x + 1 / 2\<rfloor>))"

definition Math_round :: "real \<Rightarrow> real" where
  "Math_round x = of_int \<lfloor>x + 1 / 2\<rfloor>"

datatype check_status = SUCCESS | FAILURE | WARNING | INFO | SKIPPED

text \<open>
  A \<open>ConformanceCheck\<close>. The fields \<open>description\<close>, \<open>timestamp\<close> and \<open>specReferences\<close>
  are fixed prose, a clock reading and a fixed link; no branch of the scenarios reads
  them and they are left out of the record.
\<close>

record check =
  check_id :: string
  name :: string
  status :: check_status
  errorMessage :: "string option"
  details :: "(string \<times> jsval) list"

definition num_or_null :: "real option \<Rightarrow> jsval" where
  "num_or_null t = (case t of None \<Rightarrow> JNull | Some x \<Rightarrow> JNum x)"

definition str_or_undefined :: "string option \<Rightarrow> jsval" where
  "str_or_undefined t = (case t of None \<Rightarrow> JUndefined | Some x \<Rightarrow> JStr x)"

section \<open>SSERetryScenario: the server-role harness\<close>

text \<open>
  The mutable fields of one \<open>SSERetryScenario\<close> instance. \<open>server\<close> and \<open>port\<close> belong to
  \<open>start\<close>/\<open>stop\<close> and are not part of the request handling. \<open>getResponseStream\<close> holds a
  response object; responses are identified by a number.
\<close>

record sse_retry =
  checks :: "check list"
  toolStreamCloseTime :: "real option"
  getReconnectionTime :: "real option"
  getConnectionCount :: nat
  lastEventIds :: "string option list"
  retryValue :: nat
  eventIdCounter :: nat
  sessionId :: string
  pendingToolCallId :: jsval
  getResponseStream :: "nat option"

definition EARLY_TOLERANCE :: real where
  "EARLY_TOLERANCE = 50"

definition LATE_TOLERANCE :: real where
  "LATE_TOLERANCE = 200"

definition VERY_LATE_MULTIPLIER :: real where
  "VERY_LATE_MULTIPLIER = 2"

text \<open>The field initialisers; \<open>date_now\<close> is the reading of \<open>Date.now()\<close> at construction.\<close>

definition new_SSERetryScenario :: "nat \<Rightarrow> sse_retry" where
  "new_SSERetryScenario date_now =
     \<lparr> checks = [],
       toolStreamCloseTime = None,
       getReconnectionTime = None,
       getConnectionCount = 0,
       lastEventIds = [],
       retryValue = 500,
       eventIdCounter = 0,
       sessionId = ''session-'' @ string_of_nat date_now,
       pendingToolCallId = JNull,
       getResponseStream = None \<rparr>"

definition push :: "check \<Rightarrow> sse_retry \<Rightarrow> sse_retry" where
  "push c s = s\<lparr>checks := checks s @ [c]\<rparr>"

subsection \<open>generateChecks and getChecks\<close>

text \<open>
  The block of \<open>generateChecks\<close> that judges the reconnection delay, as a function of the
  double \<open>actualDelay\<close>. Its thresholds 450, 700 and 1000 are computed without rounding.
\<close>

definition retryTimingCheck :: "sse_retry \<Rightarrow> real \<Rightarrow> check" where
  "retryTimingCheck s actualDelay =
     (let minExpected = real (retryValue s) - EARLY_TOLERANCE;
          maxExpected = real (retryValue s) + LATE_TOLERANCE;
          tooEarly = actualDelay < minExpected;
          slightlyLate = actualDelay > maxExpected;
          veryLate = actualDelay > real (retryValue s) * VERY_LATE_MULTIPLIER;
          withinTolerance = (\<not> tooEarly \<and> \<not> slightlyLate);
          verdict =
            (if tooEarly then
               (FAILURE,
                Some (''Client reconnected too early ('' @ toFixed0 actualDelay
                  @ ''ms instead of '' @ string_of_nat (retryValue s)
                  @ ''ms). Client MUST respect the retry field and wait the specified time.''))
             else if veryLate then
               (FAILURE,
                Some (''Client reconnected very late ('' @ toFixed0 actualDelay
                  @ ''ms instead of '' @ string_of_nat (retryValue s)
                  @ ''ms). Client appears to be ignoring the retry field and using its own backoff strategy.''))
             else if slightlyLate then
               (WARNING,
                Some (''Client reconnected slightly late ('' @ toFixed0 actualDelay
                  @ ''ms instead of '' @ string_of_nat (retryValue s)
                  @ ''ms). This is acceptable but may indicate network delays.''))
             else (SUCCESS, None))
      in \<lparr> check_id = ''client-sse-retry-timing'',
           name = ''ClientRespectsRetryField'',
           status = fst verdict,
           errorMessage = snd verdict,
           details =
             [(''expectedRetryMs'', JNum (real (retryValue s))),
              (''actualDelayMs'', JNum (Math_round actualDelay)),
              (''minAcceptableMs'', JNum minExpected),
              (''maxAcceptableMs'', JNum maxExpected),
              (''veryLateThresholdMs'', JNum (real (retryValue s) * VERY_LATE_MULTIPLIER)),
              (''earlyToleranceMs'', JNum EARLY_TOLERANCE),
              (''lateToleranceMs'', JNum LATE_TOLERANCE),
              (''withinTolerance'', JBool withinTolerance),
              (''tooEarly'', JBool tooEarly),
              (''slightlyLate'', JBool slightlyLate),
              (''veryLate'', JBool veryLate),
              (''getConnectionCount'', JNum (real (getConnectionCount s)))] \<rparr>)"

text \<open>The else branch: one of the two instants was never recorded.\<close>

definition retryTimingUnmeasured :: "sse_retry \<Rightarrow> check" where
  "retryTimingUnmeasured s =
     \<lparr> check_id = ''client-sse-retry-timing'',
       name = ''ClientRespectsRetryField'',
       status = WARNING,
       errorMessage =
         Some ''Could not measure timing - tool stream close time or GET reconnection time not recorded'',
       details =
         [(''toolStreamCloseTime'', num_or_null (toolStreamCloseTime s)),
          (''getReconnectionTime'', num_or_null (getReconnectionTime s))] \<rparr>"

definition noReconnectCheck :: "sse_retry \<Rightarrow> check" where
  "noReconnectCheck s =
     \<lparr> check_id = ''client-sse-graceful-reconnect'',
       name = ''ClientGracefulReconnect'',
       status = FAILURE,
       errorMessage =
         Some ''Client did not attempt GET reconnection after stream closure. Client should treat graceful stream close as reconnectable.'',
       details =
         [(''getConnectionCount'', JNum (real (getConnectionCount s))),
          (''toolStreamCloseTime'', num_or_null (toolStreamCloseTime s)),
          (''retryValue'', JNum (real (retryValue s)))] \<rparr>"

definition reconnectCheck :: "sse_retry \<Rightarrow> check" where
  "reconnectCheck s =
     \<lparr> check_id = ''client-sse-graceful-reconnect'',
       name = ''ClientGracefulReconnect'',
       status = SUCCESS,
       errorMessage = None,
       details = [(''getConnectionCount'', JNum (real (getConnectionCount s)))] \<rparr>"

definition lastEventIdCheck :: "sse_retry \<Rightarrow> check" where
  "lastEventIdCheck s =
     (let hasLastEventId =
            (length (lastEventIds s) > 0 \<and> lastEventIds s ! 0 \<noteq> None)
      in \<lparr> check_id = ''client-sse-last-event-id'',
           name = ''ClientSendsLastEventId'',
           status = (if hasLastEventId then SUCCESS else WARNING),
           errorMessage =
             (if \<not> hasLastEventId then
                Some ''Client did not send Last-Event-ID header on reconnection. This is a SHOULD requirement for resumability.''
              else None),
           details =
             [(''hasLastEventId'', JBool hasLastEventId),
              (''lastEventIds'', JArr (map str_or_undefined (lastEventIds s))),
              (''getConnectionCount'', JNum (real (getConnectionCount s)))] \<rparr>)"

text \<open>
  The time stamps are doubles and \<open>getReconnectionTime - toolStreamCloseTime\<close> is the
  subtraction of doubles, which rounds its result. It is the parameter \<open>sub\<close>.
\<close>

definition generateChecks :: "(real \<Rightarrow> real \<Rightarrow> real) \<Rightarrow> sse_retry \<Rightarrow> sse_retry" where
  "generateChecks sub s =
     (if getConnectionCount s < 1 then push (noReconnectCheck s) s
      else
        let s1 = push (reconnectCheck s) s;
            s2 = (case (toolStreamCloseTime s1, getReconnectionTime s1) of
                    (Some closeTime, Some reconnTime) \<Rightarrow>
                      push (retryTimingCheck s1 (sub reconnTime closeTime)) s1
                  | _ \<Rightarrow> push (retryTimingUnmeasured s1) s1)
        in push (lastEventIdCheck s2) s2)"

text \<open>
  \<open>getChecks\<close> returns the array \<open>this.checks\<close> itself; the first component is its
  content at the moment of the return.
\<close>

definition getChecks ::
  "(real \<Rightarrow> real \<Rightarrow> real) \<Rightarrow> sse_retry \<Rightarrow> check list \<times> sse_retry" where
  "getChecks sub s = (let s' = generateChecks sub s in (checks s', s'))"

text \<open>
  The subtraction of doubles whose difference is again a double, as it is for
  integer-valued time stamps; the examples use it.
\<close>

definition exact_sub :: "real \<Rightarrow> real \<Rightarrow> real" where
  "exact_sub a b = a - b"

subsection \<open>HTTP requests and responses\<close>

text \<open>
  A thrown JavaScript error, with its name and message; \<open>String(error)\<close> is
  \<open>Error.prototype.toString\<close>.
\<close>

datatype js_error = JsError string string

fun string_of_error :: "js_error \<Rightarrow> string" where
  "string_of_error (JsError n m) =
     (if n = [] then m else if m = [] then n else n @ '': '' @ m)"

text \<open>
  An incoming request as the handlers see it: method, URL, the header object (Node gives
  lower-case names) and, for a POST, what \<open>JSON.parse(body)\<close> does once the body has
  arrived: it throws a \<open>SyntaxError\<close> or returns the parsed value. An object returned by
  \<open>JSON.parse\<close> has pairwise distinct keys.
\<close>

record http_request =
  reqMethod :: string
  reqUrl :: string
  reqHeaders :: "(string \<times> string) list"
  parsedBody :: "js_error + jsval"

text \<open>
  An \<open>http.ServerResponse\<close>: the status and headers of \<open>writeHead\<close>, the chunks given to
  \<open>write\<close> and \<open>end\<close> in order, and whether \<open>end\<close> was called.
\<close>

record http_response =
  statusCode :: "nat option"
  resHeaders :: "(string \<times> string) list"
  written :: "string list"
  ended :: bool

definition new_response :: http_response where
  "new_response = \<lparr> statusCode = None, resHeaders = [], written = [], ended = False \<rparr>"

definition writeHead :: "nat \<Rightarrow> (string \<times> string) list \<Rightarrow> http_response \<Rightarrow> http_response" where
  "writeHead code hs res = res\<lparr>statusCode := Some code, resHeaders := resHeaders res @ hs\<rparr>"

definition res_write :: "string \<Rightarrow> http_response \<Rightarrow> http_response" where
  "res_write chunk res = res\<lparr>written := written res @ [chunk]\<rparr>"

definition res_end :: "string option \<Rightarrow> http_response \<Rightarrow> http_response" where
  "res_end chunk res =
     (case chunk of
        None \<Rightarrow> res\<lparr>ended := True\<rparr>
      | Some c \<Rightarrow> res\<lparr>written := written res @ [c], ended := True\<rparr>)"

text \<open>
  Reading a property of a parsed value: a \<open>TypeError\<close> on \<open>null\<close> and \<open>undefined\<close>, the
  own property of an object, and \<open>undefined\<close> on every other value. The scenarios read
  only \<open>method\<close>, \<open>id\<close>, \<open>result\<close>, \<open>isError\<close> and \<open>type\<close>, which no number, boolean, string,
  array or object inherits. The message is the engine's.
\<close>

fun get_prop :: "jsval \<Rightarrow> string \<Rightarrow> js_error + jsval" where
  "get_prop (JObj kvs) k = Inr (case map_of kvs k of None \<Rightarrow> JUndefined | Some v \<Rightarrow> v)"
| "get_prop JNull k =
     Inl (JsError ''TypeError'' (''Cannot read properties of null (reading '' @ [CHR 0x27] @ k @ [CHR 0x27] @ '')''))"
| "get_prop JUndefined k =
     Inl (JsError ''TypeError'' (''Cannot read properties of undefined (reading '' @ [CHR 0x27] @ k @ [CHR 0x27] @ '')''))"
| "get_prop v k = Inr JUndefined"

text \<open>
  A template literal \<open>`${v}`\<close> converts \<open>v\<close> to a string, which throws a \<open>TypeError\<close> when
  \<open>v\<close> is an object whose own \<open>toString\<close> shadows the inherited method (a parsed value is
  never callable), or an array with such an element.
\<close>

fun template_throws :: "jsval \<Rightarrow> bool" where
  "template_throws (JObj kvs) = (map_of kvs ''toString'' \<noteq> None)"
| "template_throws (JArr xs) = list_ex template_throws xs"
| "template_throws v = False"

definition truthy_header :: "string option \<Rightarrow> bool" where
  "truthy_header h = (case h of None \<Rightarrow> False | Some v \<Rightarrow> v \<noteq> [])"

subsection \<open>The request handlers\<close>

text \<open>
  Every handler takes the scenario state and the response object it writes to and returns
  both. \<open>JSON.stringify\<close> is the parameter \<open>stringify\<close>. The number \<open>rid\<close> identifies the
  response object.
\<close>

definition event_id :: "nat \<Rightarrow> string" where
  "event_id n = ''event-'' @ string_of_nat n"

definition sse_headers :: "sse_retry \<Rightarrow> (string \<times> string) list" where
  "sse_headers s =
     [(''Content-Type'', ''text/event-stream''),
      (''Cache-Control'', ''no-cache''),
      (''Connection'', ''keep-alive''),
      (''mcp-session-id'', sessionId s)]"

definition json_headers :: "sse_retry \<Rightarrow> (string \<times> string) list" where
  "json_headers s =
     [(''Content-Type'', ''application/json''),
      (''mcp-session-id'', sessionId s)]"

definition primingContent :: "string \<Rightarrow> nat \<Rightarrow> string" where
  "primingContent eventId retry =
     ''id: '' @ eventId @ ''\<newline>retry: '' @ string_of_nat retry @ ''\<newline>data: \<newline>\<newline>''"

definition toolResponse :: "jsval \<Rightarrow> jsval" where
  "toolResponse pendingId =
     JObj [(''jsonrpc'', JStr ''2.0''),
           (''id'', pendingId),
           (''result'',
            JObj [(''content'',
                   JArr [JObj [(''type'', JStr ''text''),
                               (''text'', JStr ''Reconnection test completed successfully'')]])])]"

definition responseContent :: "(jsval \<Rightarrow> string) \<Rightarrow> string \<Rightarrow> jsval \<Rightarrow> string" where
  "responseContent stringify responseEventId body =
     ''event: message\<newline>id: '' @ responseEventId @ ''\<newline>data: '' @ stringify body
       @ ''\<newline>\<newline>''"

definition handleGetSSEStream ::
  "(jsval \<Rightarrow> string) \<Rightarrow> sse_retry \<Rightarrow> nat \<Rightarrow> http_response \<Rightarrow> sse_retry \<times> http_response" where
  "handleGetSSEStream stringify s rid res =
     (let res1 = writeHead 200 (sse_headers s) res;
          s1 = s\<lparr>eventIdCounter := eventIdCounter s + 1\<rparr>;
          eventId = event_id (eventIdCounter s1);
          res2 = res_write (primingContent eventId (retryValue s1)) res1;
          s2 = push \<lparr> check_id = ''outgoing-sse-event'',
                      name = ''OutgoingSseEvent'',
                      status = INFO,
                      errorMessage = None,
                      details =
                        [(''eventId'', JStr eventId),
                         (''retryMs'', JNum (real (retryValue s1))),
                         (''eventType'', JStr ''priming''),
                         (''raw'', JStr (primingContent eventId (retryValue s1)))] \<rparr> s1;
          s3 = s2\<lparr>getResponseStream := Some rid\<rparr>
      in if pendingToolCallId s3 \<noteq> JNull then
           let body = toolResponse (pendingToolCallId s3);
               s4 = s3\<lparr>eventIdCounter := eventIdCounter s3 + 1\<rparr>;
               responseEventId = event_id (eventIdCounter s4);
               res3 = res_write (responseContent stringify responseEventId body) res2;
               s5 = push \<lparr> check_id = ''outgoing-sse-event'',
                           name = ''OutgoingSseEvent'',
                           status = INFO,
                           errorMessage = None,
                           details =
                             [(''eventId'', JStr responseEventId),
                              (''eventType'', JStr ''message''),
                              (''jsonrpcId'', pendingToolCallId s4),
                              (''body'', body),
                              (''raw'', JStr (responseContent stringify responseEventId body))] \<rparr> s4
           in (s5\<lparr>pendingToolCallId := JNull\<rparr>, res3)
         else (s3, res2))"

definition outgoingResponse :: "jsval \<Rightarrow> jsval \<Rightarrow> check" where
  "outgoingResponse requestId response =
     \<lparr> check_id = ''outgoing-response'',
       name = ''OutgoingResponse'',
       status = INFO,
       errorMessage = None,
       details = [(''jsonrpcId'', requestId), (''body'', response)] \<rparr>"

text \<open>
  In the three handlers below \<open>requestId\<close> is the value of \<open>request.id\<close>, which the
  dispatcher has already read without a throw.
\<close>

definition handleInitialize ::
  "(jsval \<Rightarrow> string) \<Rightarrow> sse_retry \<Rightarrow> http_response \<Rightarrow> jsval \<Rightarrow> sse_retry \<times> http_response" where
  "handleInitialize stringify s res requestId =
     (let res1 = writeHead 200 (json_headers s) res;
          response =
            JObj [(''jsonrpc'', JStr ''2.0''),
                  (''id'', requestId),
                  (''result'',
                   JObj [(''protocolVersion'', JStr ''2025-03-26''),
                         (''serverInfo'',
                          JObj [(''name'', JStr ''sse-retry-test-server''),
                                (''version'', JStr ''1.0.0'')]),
                         (''capabilities'', JObj [(''tools'', JObj [])])])];
          res2 = res_end (Some (stringify response)) res1
      in (push (outgoingResponse requestId response) s, res2))"

definition handleToolsList ::
  "(jsval \<Rightarrow> string) \<Rightarrow> sse_retry \<Rightarrow> http_response \<Rightarrow> jsval \<Rightarrow> sse_retry \<times> http_response" where
  "handleToolsList stringify s res requestId =
     (let res1 = writeHead 200 (json_headers s) res;
          response =
            JObj [(''jsonrpc'', JStr ''2.0''),
                  (''id'', requestId),
                  (''result'',
                   JObj [(''tools'',
                          JArr [JObj [(''name'', JStr ''test_reconnection''),
                                      (''description'',
                                       JStr ''A tool that triggers SSE stream closure to test client reconnection behavior''),
                                      (''inputSchema'',
                                       JObj [(''type'', JStr ''object''),
                                             (''properties'', JObj []),
                                             (''required'', JArr [])])]])])];
          res2 = res_end (Some (stringify response)) res1
      in (push (outgoingResponse requestId response) s, res2))"

text \<open>
  \<open>handleToolsCall\<close> ends with \<open>setTimeout(callback, 50)\<close>. The third component of the
  result lists the delays (in ms) of the timers the handler has registered for its
  response; \<open>toolStreamTimeout\<close> is the callback, run by the event loop at the instant
  \<open>now = performance.now()\<close> on the state and the response as they are then.
\<close>

definition handleToolsCall ::
  "sse_retry \<Rightarrow> http_response \<Rightarrow> jsval \<Rightarrow> sse_retry \<times> http_response \<times> nat list" where
  "handleToolsCall s res requestId =
     (let s1 = s\<lparr>pendingToolCallId := requestId\<rparr>;
          res1 = writeHead 200 (sse_headers s1) res;
          s2 = s1\<lparr>eventIdCounter := eventIdCounter s1 + 1\<rparr>;
          primingEventId = event_id (eventIdCounter s2);
          res2 = res_write (primingContent primingEventId (retryValue s2)) res1;
          s3 = push \<lparr> check_id = ''outgoing-sse-event'',
                      name = ''OutgoingSseEvent'',
                      status = INFO,
                      errorMessage = None,
                      details =
                        [(''eventId'', JStr primingEventId),
                         (''retryMs'', JNum (real (retryValue s2))),
                         (''eventType'', JStr ''priming''),
                         (''raw'', JStr (primingContent primingEventId (retryValue s2)))] \<rparr> s2
      in (s3, res2, [50]))"

definition toolStreamTimeout ::
  "real \<Rightarrow> sse_retry \<Rightarrow> http_response \<Rightarrow> sse_retry \<times> http_response" where
  "toolStreamTimeout now s res =
     (let s1 = s\<lparr>toolStreamCloseTime := Some now\<rparr>;
          s2 = push \<lparr> check_id = ''outgoing-stream-close'',
                      name = ''OutgoingStreamClose'',
                      status = INFO,
                      errorMessage = None,
                      details =
                        [(''retryMs'', JNum (real (retryValue s1))),
                         (''pendingToolCallId'', pendingToolCallId s1)] \<rparr> s1
      in (s2, res_end None res))"

definition parseErrorResponse ::
  "(jsval \<Rightarrow> string) \<Rightarrow> js_error \<Rightarrow> http_response \<Rightarrow> http_response" where
  "parseErrorResponse stringify e res =
     res_end
       (Some (stringify
          (JObj [(''jsonrpc'', JStr ''2.0''),
                 (''error'',
                  JObj [(''code'', JNum (- 32700)),
                        (''message'', JStr (''Parse error: '' @ string_of_error e))])])))
       (writeHead 400 [(''Content-Type'', ''application/json'')] res)"

text \<open>
  The \<open>end\<close> callback of \<open>handlePostRequest\<close>. Inside its \<open>try\<close>, three things can throw
  before the dispatch: \<open>JSON.parse\<close>, the property read \<open>request.method\<close> on \<open>null\<close>, and
  the conversion of \<open>request.method\<close> to a string in the description of the logged
  check. Each lands in the \<open>catch\<close>, which answers 400.
\<close>

definition handlePostRequest ::
  "(jsval \<Rightarrow> string) \<Rightarrow> sse_retry \<Rightarrow> http_request \<Rightarrow> http_response
     \<Rightarrow> sse_retry \<times> http_response \<times> nat list" where
  "handlePostRequest stringify s req res =
     (case parsedBody req of
        Inl e \<Rightarrow> (s, parseErrorResponse stringify e res, [])
      | Inr request \<Rightarrow>
          (case (get_prop request ''method'', get_prop request ''id'') of
             (Inr requestMethod, Inr requestId) \<Rightarrow>
               if template_throws requestMethod then
                 (s, parseErrorResponse stringify
                       (JsError ''TypeError'' ''Cannot convert object to primitive value'') res, [])
               else
                 let s1 = push \<lparr> check_id = ''incoming-request'',
                                 name = ''IncomingRequest'',
                                 status = INFO,
                                 errorMessage = None,
                                 details =
                                   [(''method'', JStr ''POST''),
                                    (''url'', JStr (reqUrl req)),
                                    (''jsonrpcMethod'', requestMethod),
                                    (''jsonrpcId'', requestId)] \<rparr> s
                 in if requestMethod = JStr ''initialize'' then
                      (case handleInitialize stringify s1 res requestId of
                         (s2, res2) \<Rightarrow> (s2, res2, []))
                    else if requestMethod = JStr ''tools/list'' then
                      (case handleToolsList stringify s1 res requestId of
                         (s2, res2) \<Rightarrow> (s2, res2, []))
                    else if requestMethod = JStr ''tools/call'' then
                      handleToolsCall s1 res requestId
                    else if requestId = JUndefined then
                      (s1, res_end None (writeHead 202 [] res), [])
                    else
                      (s1,
                       res_end
                         (Some (stringify
                            (JObj [(''jsonrpc'', JStr ''2.0''),
                                   (''id'', requestId),
                                   (''result'', JObj [])])))
                         (writeHead 200 (json_headers s1) res),
                       [])
           | (Inl e, _) \<Rightarrow> (s, parseErrorResponse stringify e res, [])
           | (_, Inl e) \<Rightarrow> (s, parseErrorResponse stringify e res, [])))"

definition handleRequest ::
  "(jsval \<Rightarrow> string) \<Rightarrow> real \<Rightarrow> sse_retry \<Rightarrow> nat \<Rightarrow> http_request \<Rightarrow> http_response
     \<Rightarrow> sse_retry \<times> http_response \<times> nat list" where
  "handleRequest stringify now s rid req res =
     (if reqMethod req = ''GET'' then
        let s1 = s\<lparr>getConnectionCount := getConnectionCount s + 1\<rparr>;
            s2 = s1\<lparr>getReconnectionTime := Some now\<rparr>;
            lastEventId = map_of (reqHeaders req) ''last-event-id'';
            s3 = push \<lparr> check_id = ''incoming-request'',
                        name = ''IncomingRequest'',
                        status = INFO,
                        errorMessage = None,
                        details =
                          [(''method'', JStr ''GET''),
                           (''url'', JStr (reqUrl req)),
                           (''headers'', JObj (map (\<lambda>(k, v). (k, JStr v)) (reqHeaders req))),
                           (''connectionCount'', JNum (real (getConnectionCount s2)))] \<rparr> s2;
            s4 = (if truthy_header lastEventId
                  then s3\<lparr>lastEventIds := lastEventIds s3 @ [lastEventId]\<rparr>
                  else s3)
        in (case handleGetSSEStream stringify s4 rid res of (s5, res5) \<Rightarrow> (s5, res5, []))
      else if reqMethod req = ''POST'' then handlePostRequest stringify s req res
      else (s, res_end (Some ''Method Not Allowed'') (writeHead 405 [] res), []))"

subsection \<open>The event loop around the handlers\<close>

text \<open>
  Node runs the handlers one at a time. The world holds the scenario instance, every
  response object created so far (a request's response is the next free position), the
  pending timers, each with its delay and the response its callback closes over, and the
  wire: every chunk given to \<open>res.write\<close> or \<open>res.end\<close> so far, in the order of the calls,
  with the number of its response and the \<open>Content-Type\<close> that response was opened with.
  An event is an incoming request, handled at the instant \<open>now\<close>, or the firing of the
  pending timer at position \<open>k\<close>.
\<close>

record world =
  scenario :: sse_retry
  responses :: "http_response list"
  timers :: "(nat \<times> nat) list"
  wire :: "(nat \<times> string option \<times> string) list"

datatype event = Incoming real http_request | TimerFires real nat

definition new_world :: "nat \<Rightarrow> world" where
  "new_world date_now =
     \<lparr> scenario = new_SSERetryScenario date_now, responses = [], timers = [], wire = [] \<rparr>"

definition sent_on :: "nat \<Rightarrow> http_response \<Rightarrow> string list \<Rightarrow> (nat \<times> string option \<times> string) list" where
  "sent_on rid res frames = map (\<lambda>chunk. (rid, map_of (resHeaders res) ''Content-Type'', chunk)) frames"

definition step :: "(jsval \<Rightarrow> string) \<Rightarrow> world \<Rightarrow> event \<Rightarrow> world" where
  "step stringify w ev =
     (case ev of
        Incoming now req \<Rightarrow>
          (let rid = length (responses w)
           in case handleRequest stringify now (scenario w) rid req new_response of
                (s', res', delays) \<Rightarrow>
                  w\<lparr>scenario := s',
                    responses := responses w @ [res'],
                    timers := timers w @ map (\<lambda>d. (d, rid)) delays,
                    wire := wire w @ sent_on rid res' (written res')\<rparr>)
      | TimerFires now k \<Rightarrow>
          (if k < length (timers w) \<and> snd (timers w ! k) < length (responses w) then
             let rid = snd (timers w ! k);
                 res = responses w ! rid
             in case toolStreamTimeout now (scenario w) res of
                  (s', res') \<Rightarrow>
                    w\<lparr>scenario := s',
                      responses := (responses w)[rid := res'],
                      timers := take k (timers w) @ drop (Suc k) (timers w),
                      wire := wire w @ sent_on rid res' (drop (length (written res)) (written res'))\<rparr>
           else w))"

definition run_events :: "(jsval \<Rightarrow> string) \<Rightarrow> world \<Rightarrow> event list \<Rightarrow> world" where
  "run_events stringify w evs = foldl (step stringify) w evs"

text \<open>
  Every SSE event the harness writes is logged as an \<open>OutgoingSseEvent\<close> check that
  carries the event's id; the ids emitted so far, in order of emission, are read from
  that log. The numeric part of an id follows the prefix \<open>event-\<close>.
\<close>

definition check_event_id :: "check \<Rightarrow> string list" where
  "check_event_id c =
     (if name c = ''OutgoingSseEvent'' then
        (case map_of (details c) ''eventId'' of Some (JStr e) \<Rightarrow> [e] | _ \<Rightarrow> [])
      else [])"

definition emitted_event_ids :: "sse_retry \<Rightarrow> string list" where
  "emitted_event_ids s = concat (map check_event_id (checks s))"

definition event_num :: "string \<Rightarrow> nat" where
  "event_num e = nat_of_string (drop 6 e)"

text \<open>
  The ids as they go over the wire. A frame is a chunk written to a response that was
  opened as \<open>text/event-stream\<close>; its id is the text after \<open>id: \<close> on the first line that
  starts so (both handlers put the id before the data).
\<close>

primrec split_lines :: "string \<Rightarrow> string list" where
  "split_lines [] = [[]]"
| "split_lines (c # cs) =
     (if c = CHR 0x0A then [] # split_lines cs
      else (case split_lines cs of l # ls \<Rightarrow> (c # l) # ls | [] \<Rightarrow> [[c]]))"

definition frame_id :: "string \<Rightarrow> string list" where
  "frame_id chunk =
     (case filter (\<lambda>l. take 4 l = ''id: '') (split_lines chunk) of
        [] \<Rightarrow> []
      | l # ls \<Rightarrow> [drop 4 l])"

definition stream_frames :: "(nat \<times> string option \<times> string) list \<Rightarrow> string list" where
  "stream_frames sent =
     map (\<lambda>(rid, ct, chunk). chunk)
       (filter (\<lambda>(rid, ct, chunk). ct = Some ''text/event-stream'') sent)"

definition wire_event_ids :: "world \<Rightarrow> string list" where
  "wire_event_ids w = concat (map frame_id (stream_frames (wire w)))"

fun is_tools_call :: "event \<Rightarrow> bool" where
  "is_tools_call (Incoming now req) =
     (reqMethod req = ''POST'' \<and>
      (case parsedBody req of
         Inr request \<Rightarrow> get_prop request ''method'' = Inr (JStr ''tools/call'')
       | Inl e \<Rightarrow> False))"
| "is_tools_call (TimerFires now k) = False"

text \<open>
  The Last-Event-ID a request announces: the value of the header of a GET, when it is
  present and not empty.
\<close>

fun announced_last_event_id :: "event \<Rightarrow> string option list" where
  "announced_last_event_id (Incoming now req) =
     (if reqMethod req = ''GET'' \<and> truthy_header (map_of (reqHeaders req) ''last-event-id'')
      then [map_of (reqHeaders req) ''last-event-id'']
      else [])"
| "announced_last_event_id (TimerFires now k) = []"

fun is_get :: "event \<Rightarrow> bool" where
  "is_get (Incoming now req) = (reqMethod req = ''GET'')"
| "is_get (TimerFires now k) = False"

text \<open>
  The chunk written for a logged SSE event: the \<open>raw\<close> detail of its \<open>OutgoingSseEvent\<close>
  check.
\<close>

definition check_raw :: "check \<Rightarrow> string list" where
  "check_raw c =
     (if name c = ''OutgoingSseEvent'' then
        (case map_of (details c) ''raw'' of Some (JStr t) \<Rightarrow> [t] | _ \<Rightarrow> [])
      else [])"

text \<open>
  A function for the examples: it agrees with \<open>JSON.stringify\<close> on values whose numbers
  are integers and whose strings hold no character that JSON escapes.
\<close>

fun sample_stringify :: "jsval \<Rightarrow> string"
  and sample_elements :: "jsval list \<Rightarrow> string list"
  and sample_members :: "(string \<times> jsval) list \<Rightarrow> string list" where
  "sample_stringify JUndefined = ''undefined''"
| "sample_stringify JNull = ''null''"
| "sample_stringify (JBool b) = (if b then ''true'' else ''false'')"
| "sample_stringify (JNum x) =
     (if x < 0 then ''-'' @ string_of_nat (nat \<lfloor>- x\<rfloor>) else string_of_nat (nat \<lfloor>x\<rfloor>))"
| "sample_stringify (JStr t) = [CHR 0x22] @ t @ [CHR 0x22]"
| "sample_stringify (JArr xs) = ''['' @ join '','' (sample_elements xs) @ '']''"
| "sample_stringify (JObj kvs) = ''{'' @ join '','' (sample_members kvs) @ ''}''"
| "sample_elements [] = []"
| "sample_elements (x # xs) =
     (if x = JUndefined then ''null'' else sample_stringify x) # sample_elements xs"
| "sample_members [] = []"
| "sample_members ((k, v) # kvs) =
     (if v = JUndefined then sample_members kvs
      else ([CHR 0x22] @ k @ [CHR 0x22] @ '':'' @ sample_stringify v) # sample_members kvs)"

text \<open>
  A state in which a tools/call stream was closed at instant 100 and one GET carrying
  \<open>Last-Event-ID: event-1\<close> arrived at instant 640.
\<close>

definition probe_state :: sse_retry where
  "probe_state =
     (new_SSERetryScenario 0)
       \<lparr> toolStreamCloseTime := Some 100,
         getReconnectionTime := Some 640,
         getConnectionCount := 1,
         lastEventIds := [Some ''event-1''] \<rparr>"

text \<open>
  Example requests: a GET that carries no header at all, to a path the protocol does not
  define (its body is empty and never read; \<open>JSON.parse\<close> of the empty string throws);
  an id-less \<open>tools/list\<close>; an id-less \<open>notifications/initialized\<close>; a \<open>tools/call\<close> with
  id 7; a DELETE.
\<close>

definition empty_body :: "js_error + jsval" where
  "empty_body = Inl (JsError ''SyntaxError'' ''Unexpected end of JSON input'')"

definition bare_get :: http_request where
  "bare_get =
     \<lparr> reqMethod = ''GET'', reqUrl = ''/unsupported'', reqHeaders = [],
       parsedBody = empty_body \<rparr>"

definition idless_tools_list :: http_request where
  "idless_tools_list =
     \<lparr> reqMethod = ''POST'', reqUrl = ''/'', reqHeaders = [],
       parsedBody = Inr (JObj [(''jsonrpc'', JStr ''2.0''), (''method'', JStr ''tools/list'')]) \<rparr>"

definition initialized_notification :: http_request where
  "initialized_notification =
     \<lparr> reqMethod = ''POST'', reqUrl = ''/'', reqHeaders = [],
       parsedBody =
         Inr (JObj [(''jsonrpc'', JStr ''2.0''),
                    (''method'', JStr ''notifications/initialized'')]) \<rparr>"

definition tools_call_7 :: http_request where
  "tools_call_7 =
     \<lparr> reqMethod = ''POST'', reqUrl = ''/'', reqHeaders = [],
       parsedBody =
         Inr (JObj [(''jsonrpc'', JStr ''2.0''),
                    (''id'', JNum 7),
                    (''method'', JStr ''tools/call''),
                    (''params'', JObj [(''name'', JStr ''test_reconnection''),
                                       (''arguments'', JObj [])])]) \<rparr>"

definition delete_request :: http_request where
  "delete_request =
     \<lparr> reqMethod = ''DELETE'', reqUrl = ''/'', reqHeaders = [], parsedBody = empty_body \<rparr>"

text \<open>The state of a fresh scenario after it has handled \<open>tools_call_7\<close>.\<close>

definition pending_state :: sse_retry where
  "pending_state =
     fst (handleRequest sample_stringify 0 (new_SSERetryScenario 0) 0 tools_call_7 new_response)"

section \<open>The client-role scenarios\<close>

subsection \<open>What the server under test and the runtime do\<close>

text \<open>
  A value caught by a \<open>catch\<close> clause: an \<open>Error\<close> object, or any other value, given by
  what \<open>String\<close> makes of it. \<open>caught_text\<close> is the expression
  \<open>error instanceof Error ? error.message : String(error)\<close>.
\<close>

datatype thrown = ErrorObject js_error | OtherValue string

fun caught_text :: "thrown \<Rightarrow> string" where
  "caught_text (ErrorObject (JsError n m)) = m"
| "caught_text (OtherValue t) = t"

text \<open>
  An event as \<open>EventSourceParserStream\<close> hands it over, and what the parser meets on a
  response body. The body arrives in chunks; the parser is fed one chunk at a time and
  meets in it \<open>retry:\<close> fields (passed to \<open>onRetry\<close>) and events, in order. After the
  last chunk the body ends, stalls (nothing more arrives; a pending read then lasts
  until it is cancelled) or fails.
\<close>

record sse_event =
  ev_id :: "string option"
  ev_event :: "string option"
  ev_data :: string

datatype sse_item = RetryField nat | Event sse_event

datatype stream_end = EndOfStream | Stalls | StreamError thrown

record sse_stream =
  chunks :: "sse_item list list"
  ending :: stream_end

text \<open>
  A \<open>Response\<close> of \<open>fetch\<close>: status, headers (lower-case names) and body (\<open>null\<close> or a
  stream). \<open>response.ok\<close> is a status from 200 to 299.
\<close>

record fetch_response =
  fr_status :: nat
  fr_headers :: "(string \<times> string) list"
  fr_body :: "sse_stream option"

definition fr_ok :: "fetch_response \<Rightarrow> bool" where
  "fr_ok r = (200 \<le> fr_status r \<and> fr_status r \<le> 299)"

definition content_type :: "fetch_response \<Rightarrow> string option" where
  "content_type r = map_of (fr_headers r) ''content-type''"

text \<open>\<open>String.prototype.includes\<close>, and the test \<open>ct?.includes('text/event-stream')\<close>.\<close>

primrec str_includes :: "string \<Rightarrow> string \<Rightarrow> bool" where
  "str_includes [] t = (t = [])"
| "str_includes (c # s) t = (take (length t) (c # s) = t \<or> str_includes s t)"

definition is_event_stream :: "string option \<Rightarrow> bool" where
  "is_event_stream ct = (case ct of None \<Rightarrow> False | Some v \<Rightarrow> str_includes v ''text/event-stream'')"

definition event_value :: "sse_event \<Rightarrow> jsval" where
  "event_value e =
     JObj [(''id'', str_or_undefined (ev_id e)),
           (''event'', str_or_undefined (ev_event e)),
           (''data'', JStr (ev_data e))]"

text \<open>
  \<open>Promise.all\<close>: the array of results, or a rejection. When several promises reject it
  reports the one that settles first; the model takes the first in request order.
\<close>

fun promise_all :: "(thrown + 'a) list \<Rightarrow> thrown + 'a list" where
  "promise_all [] = Inr []"
| "promise_all (Inl e # ps) = Inl e"
| "promise_all (Inr v # ps) = (case promise_all ps of Inl e \<Rightarrow> Inl e | Inr vs \<Rightarrow> Inr (v # vs))"

text \<open>
  What a run of a client-role scenario meets: whether constructing the client and the
  transport (with \<open>new URL(serverUrl)\<close>) throws, whether \<open>connect\<close> rejects, the session
  id the transport holds afterwards, the settlement of each \<open>fetch\<close> (by the number of
  the call), and whether \<open>close\<close> rejects.
\<close>

record client_env =
  construct_client :: "thrown option"
  construct_transport :: "thrown option"
  connect :: "thrown option"
  transport_sessionId :: "string option"
  fetch :: "nat \<Rightarrow> thrown + fetch_response"
  close :: "thrown option"

text \<open>
  How the \<open>try\<close> block of \<open>run\<close> is left: by reaching its end or a \<open>return checks\<close>, or by
  a throw. \<open>body_result\<close> is the state at that moment: the checks pushed so far and
  whether the variable \<open>client\<close> has been assigned.
\<close>

datatype body_exit = Completes | Throws thrown

record body_result =
  pushed :: "check list"
  client_assigned :: bool
  exit :: body_exit

text \<open>
  What \<open>run\<close> gives back when it returns: the array, and whether \<open>client.close()\<close> was
  called on the way. A run that ends by a throw is the left summand of \<open>thrown + run_result\<close>.
\<close>

record run_result =
  returned :: "check list"
  close_called :: bool

subsection \<open>ServerSSEMultipleStreamsScenario.run\<close>

definition numStreams :: nat where
  "numStreams = 3"

definition truthy_string :: "string option \<Rightarrow> bool" where
  "truthy_string v = (case v of None \<Rightarrow> False | Some t \<Rightarrow> t \<noteq> [])"

text \<open>
  Step 3, for one response: a non-SSE response is skipped; an SSE response that is not
  ok or has no body is an error; otherwise one read races a timer of 2000 ms, the
  reader is cancelled, and a throw inside that block becomes an error entry.
\<close>

definition first_read :: "sse_stream \<Rightarrow> thrown + jsval" where
  "first_read st =
     (case [e. Event e \<leftarrow> concat (chunks st)] of
        e # _ \<Rightarrow> Inr (event_value e)
      | [] \<Rightarrow>
          (case ending st of
             EndOfStream \<Rightarrow> Inr JUndefined
           | Stalls \<Rightarrow> Inr JNull
           | StreamError err \<Rightarrow> Inl err))"

definition eventResult :: "nat \<Rightarrow> fetch_response \<Rightarrow> jsval" where
  "eventResult index response =
     (if \<not> is_event_stream (content_type response) then
        JObj [(''index'', JNum (real index)), (''type'', JStr ''json''), (''skipped'', JBool True)]
      else
        (case (fr_ok response, fr_body response) of
           (True, Some st) \<Rightarrow>
             (case first_read st of
                Inr event \<Rightarrow>
                  JObj [(''index'', JNum (real index)), (''type'', JStr ''sse''), (''event'', event)]
              | Inl err \<Rightarrow>
                  JObj [(''index'', JNum (real index)), (''type'', JStr ''sse''),
                        (''error'', JStr (caught_text err))])
         | _ \<Rightarrow>
             JObj [(''index'', JNum (real index)), (''type'', JStr ''sse''),
                   (''error'', JStr ''Stream not available'')]))"

definition result_type_is_sse :: "jsval \<Rightarrow> bool" where
  "result_type_is_sse r = (get_prop r ''type'' = Inr (JStr ''sse''))"

definition has_error_key :: "jsval \<Rightarrow> bool" where
  "has_error_key r = (case r of JObj kvs \<Rightarrow> map_of kvs ''error'' \<noteq> None | _ \<Rightarrow> False)"

definition streamsFunctionalCheck :: "fetch_response list \<Rightarrow> check" where
  "streamsFunctionalCheck streamResponses =
     (let contentTypes = map content_type streamResponses;
          sseStreams = length (filter is_event_stream contentTypes);
          eventResults = map (\<lambda>(index, response). eventResult index response)
                             (enumerate 0 streamResponses);
          sseResults = filter result_type_is_sse eventResults;
          functionalSseStreams = length (filter (\<lambda>r. \<not> has_error_key r) sseResults)
      in if sseStreams > 0 then
           \<lparr> check_id = ''server-sse-streams-functional'',
             name = ''ServerSSEStreamsFunctional'',
             status =
               (if functionalSseStreams = sseStreams then SUCCESS
                else if functionalSseStreams > 0 then WARNING
                else FAILURE),
             errorMessage =
               (if functionalSseStreams < sseStreams then
                  Some (''Only '' @ string_of_nat functionalSseStreams @ ''/''
                        @ string_of_nat sseStreams @ '' SSE streams were functional'')
                else None),
             details =
               [(''numSseStreams'', JNum (real sseStreams)),
                (''functionalSseStreams'', JNum (real functionalSseStreams)),
                (''results'', JArr eventResults)] \<rparr>
         else
           \<lparr> check_id = ''server-sse-streams-functional'',
             name = ''ServerSSEStreamsFunctional'',
             status = INFO,
             errorMessage = None,
             details =
               [(''numSseStreams'', JNum 0),
                (''message'',
                 JStr ''Server returned JSON for all requests - SSE streaming is optional''),
                (''results'', JArr eventResults)] \<rparr>)"

definition acceptsStreamsCheck :: "fetch_response list \<Rightarrow> check" where
  "acceptsStreamsCheck streamResponses =
     (let allAccepted = list_all fr_ok streamResponses;
          statuses = map fr_status streamResponses;
          contentTypes = map content_type streamResponses;
          sseStreams = length (filter is_event_stream contentTypes)
      in \<lparr> check_id = ''server-accepts-multiple-post-streams'',
           name = ''ServerAcceptsMultiplePostStreams'',
           status = (if allAccepted then SUCCESS else FAILURE),
           errorMessage =
             (if \<not> allAccepted then
                Some (''Server rejected some requests. Statuses: ''
                      @ join '', '' (map string_of_nat statuses))
              else None),
           details =
             [(''numStreamsAttempted'', JNum (real numStreams)),
              (''numStreamsAccepted'', JNum (real (length (filter (\<lambda>s. s = 200) statuses)))),
              (''numSseStreams'', JNum (real sseStreams)),
              (''statuses'', JArr (map (\<lambda>s. JNum (real s)) statuses)),
              (''contentTypes'',
               JArr (map (\<lambda>ct. case ct of None \<Rightarrow> JNull | Some v \<Rightarrow> JStr v) contentTypes))] \<rparr>)"

definition multipleStreamsSessionCheck :: check where
  "multipleStreamsSessionCheck =
     \<lparr> check_id = ''server-sse-multiple-streams-session'',
       name = ''ServerSSEMultipleStreamsSession'',
       status = WARNING,
       errorMessage = None,
       details =
         [(''message'',
           JStr ''Server did not provide session ID - multiple streams test may not work correctly'')] \<rparr>"

text \<open>The \<open>try\<close> block of \<open>ServerSSEMultipleStreamsScenario.run\<close>.\<close>

definition multipleStreamsBody :: "client_env \<Rightarrow> body_result" where
  "multipleStreamsBody env =
     (case construct_client env of
        Some e \<Rightarrow> \<lparr> pushed = [], client_assigned = False, exit = Throws e \<rparr>
      | None \<Rightarrow>
     (case construct_transport env of
        Some e \<Rightarrow> \<lparr> pushed = [], client_assigned = True, exit = Throws e \<rparr>
      | None \<Rightarrow>
     (case connect env of
        Some e \<Rightarrow> \<lparr> pushed = [], client_assigned = True, exit = Throws e \<rparr>
      | None \<Rightarrow>
     (if \<not> truthy_string (transport_sessionId env) then
        \<lparr> pushed = [multipleStreamsSessionCheck], client_assigned = True, exit = Completes \<rparr>
      else
        (case promise_all (map (fetch env) [0..<numStreams]) of
           Inl e \<Rightarrow> \<lparr> pushed = [], client_assigned = True, exit = Throws e \<rparr>
         | Inr streamResponses \<Rightarrow>
             \<lparr> pushed = [acceptsStreamsCheck streamResponses,
                        streamsFunctionalCheck streamResponses],
               client_assigned = True,
               exit = Completes \<rparr>)))))"

text \<open>
  The \<open>catch\<close> and the \<open>finally\<close> of \<open>run\<close>, and the final \<open>return checks\<close>. A throw of
  the body is caught and adds one FAILURE check with the error text. The \<open>finally\<close> block
  calls \<open>client.close()\<close> if \<open>client\<close> was assigned, inside a \<open>try\<close> of its own whose
  \<open>catch\<close> is empty; \<open>cleanup\<close> gives whether \<open>close\<close> was called and the throw that leaves
  the block, if any. \<open>run\<close> then returns the array, or rethrows what left the \<open>finally\<close>.
\<close>

definition failureCheck :: "string \<Rightarrow> string \<Rightarrow> thrown \<Rightarrow> check" where
  "failureCheck cid cname error =
     \<lparr> check_id = cid,
       name = cname,
       status = FAILURE,
       errorMessage = Some (''Error: '' @ caught_text error),
       details = [] \<rparr>"

definition cleanup :: "client_env \<Rightarrow> bool \<Rightarrow> bool \<times> thrown option" where
  "cleanup env assigned =
     (if assigned then
        (case close env of
           Some e \<Rightarrow> (True, None)
         | None \<Rightarrow> (True, None))
      else (False, None))"

definition catch_finally ::
  "client_env \<Rightarrow> string \<Rightarrow> string \<Rightarrow> body_result \<Rightarrow> thrown + run_result" where
  "catch_finally env cid cname b =
     (let checks1 =
            (case exit b of
               Throws error \<Rightarrow> pushed b @ [failureCheck cid cname error]
             | Completes \<Rightarrow> pushed b)
      in case cleanup env (client_assigned b) of
           (called, Some e) \<Rightarrow> Inl e
         | (called, None) \<Rightarrow> Inr \<lparr> returned = checks1, close_called = called \<rparr>)"

definition multipleStreamsRun :: "client_env \<Rightarrow> thrown + run_result" where
  "multipleStreamsRun env =
     catch_finally env ''server-sse-multiple-streams-error'' ''ServerSSEMultipleStreamsTest''
       (multipleStreamsBody env)"

subsection \<open>ServerSSEPollingScenario.run\<close>

text \<open>
  JavaScript truthiness of a parsed value. \<open>JSON.parse\<close> and \<open>String.prototype.trim\<close> are
  parameters \<open>parse\<close> and \<open>trim\<close> of the definitions below.
\<close>

fun truthy :: "jsval \<Rightarrow> bool" where
  "truthy JUndefined = False"
| "truthy JNull = False"
| "truthy (JBool b) = b"
| "truthy (JNum x) = (x \<noteq> 0)"
| "truthy (JStr s) = (s \<noteq> [])"
| "truthy (JArr xs) = True"
| "truthy (JObj kvs) = True"

text \<open>
  The test \<open>parsed.id === 1 && parsed.result\<close> inside its \<open>try\<close>, on what \<open>JSON.parse\<close>
  makes of the event data: \<open>None\<close> when the parse or the property read throws (the
  \<open>catch\<close> ignores it), otherwise whether the test holds, with the value of
  \<open>parsed.result?.isError === true\<close>.
\<close>

definition toolResponseTest ::
  "(string \<Rightarrow> js_error + jsval) \<Rightarrow> string \<Rightarrow> (jsval \<times> bool) option" where
  "toolResponseTest parse data =
     (case parse data of
        Inl e \<Rightarrow> None
      | Inr parsed \<Rightarrow>
          (case (get_prop parsed ''id'', get_prop parsed ''result'') of
             (Inr pid, Inr result) \<Rightarrow>
               if pid = JNum 1 \<and> truthy result
               then Some (parsed, get_prop result ''isError'' = Inr (JBool True))
               else None
           | _ \<Rightarrow> None))"

record poll_vars =
  hasEventId :: bool
  hasPrimingEvent :: bool
  primingEventIsFirst :: bool
  hasRetryField :: bool
  seenRetryValue :: "nat option"
  lastEventId :: "string option"
  eventCount :: nat
  receivedToolResponse :: bool

definition initial_poll_vars :: poll_vars where
  "initial_poll_vars =
     \<lparr> hasEventId = False, hasPrimingEvent = False, primingEventIsFirst = False,
       hasRetryField = False, seenRetryValue = None, lastEventId = None, eventCount = 0,
       receivedToolResponse = False \<rparr>"

definition nat_or_undefined :: "nat option \<Rightarrow> jsval" where
  "nat_or_undefined v = (case v of None \<Rightarrow> JUndefined | Some n \<Rightarrow> JNum (real n))"

definition eventType :: "sse_event \<Rightarrow> jsval" where
  "eventType e =
     (case ev_event e of
        Some v \<Rightarrow> (if v \<noteq> [] then JStr v else JStr ''message'')
      | None \<Rightarrow> JStr ''message'')"

text \<open>One turn of the first \<open>while\<close> loop, for an event read from the POST stream.\<close>

definition postStreamEvent ::
  "(string \<Rightarrow> js_error + jsval) \<Rightarrow> (string \<Rightarrow> string) \<Rightarrow> sse_event
     \<Rightarrow> check list \<times> poll_vars \<Rightarrow> check list \<times> poll_vars" where
  "postStreamEvent parse trim e st =
     (let cs = fst st;
          v1 = (snd st)\<lparr>eventCount := eventCount (snd st) + 1\<rparr>;
          st2 =
            (if truthy_string (ev_id e) then
               let v2 = v1\<lparr>hasEventId := True, lastEventId := ev_id e\<rparr>;
                   isPriming = (ev_data e = [] \<or> ev_data e = ''{}'' \<or> trim (ev_data e) = []);
                   v3 = (if isPriming then
                           let v' = v2\<lparr>hasPrimingEvent := True\<rparr>
                           in if eventCount v' = 1 then v'\<lparr>primingEventIsFirst := True\<rparr> else v'
                         else v2)
               in (cs @ [\<lparr> check_id = ''incoming-sse-event'',
                            name = ''IncomingSseEvent'',
                            status = INFO,
                            errorMessage = None,
                            details =
                              [(''eventId'', str_or_undefined (ev_id e)),
                               (''eventType'', eventType e),
                               (''isPriming'', JBool isPriming),
                               (''hasRetryField'', JBool (hasRetryField v3)),
                               (''retryValue'', nat_or_undefined (seenRetryValue v3)),
                               (''data'', JStr (ev_data e))] \<rparr>],
                   v3)
             else (cs, v1))
      in if ev_data e \<noteq> [] then
           (case toolResponseTest parse (ev_data e) of
              Some (parsed, isError) \<Rightarrow>
                (fst st2 @ [\<lparr> check_id = ''incoming-sse-event'',
                               name = ''IncomingSseEvent'',
                               status = (if isError then FAILURE else INFO),
                               errorMessage = (if isError then Some ''Tool call failed'' else None),
                               details =
                                 [(''eventId'', str_or_undefined (ev_id e)),
                                  (''body'', parsed)] \<rparr>],
                 (snd st2)\<lparr>receivedToolResponse := True\<rparr>)
            | None \<Rightarrow> st2)
         else st2)"

text \<open>
  The first loop. The parser stream transforms one chunk of the body at a time: while it
  is fed the chunk it calls \<open>onRetry\<close> for every \<open>retry:\<close> field of the chunk and queues
  the events of the chunk; the loop then reads these events one by one, and the next
  chunk is fed only when the loop asks for an event and the queue is empty. So the
  \<open>retry:\<close> fields of a chunk are all seen before the loop body runs for the first event
  of that chunk. The loop ends when a read reports \<open>done\<close> (the body ended, or the timer
  of 10000 ms cancelled the reader).
\<close>

fun onRetry :: "poll_vars \<Rightarrow> sse_item \<Rightarrow> poll_vars" where
  "onRetry v (RetryField retryMs) = v\<lparr>hasRetryField := True, seenRetryValue := Some retryMs\<rparr>"
| "onRetry v (Event e) = v"

primrec postStreamLoop ::
  "(string \<Rightarrow> js_error + jsval) \<Rightarrow> (string \<Rightarrow> string) \<Rightarrow> sse_item list list
     \<Rightarrow> check list \<times> poll_vars \<Rightarrow> check list \<times> poll_vars" where
  "postStreamLoop parse trim [] st = st"
| "postStreamLoop parse trim (chunk # rest) st =
     postStreamLoop parse trim rest
       (foldl (\<lambda>st' e. postStreamEvent parse trim e st')
          (fst st, foldl onRetry (snd st) chunk)
          [e. Event e \<leftarrow> chunk])"

text \<open>
  The second loop, on the GET stream, whose parser has no \<open>onRetry\<close>: every event is
  logged; the loop breaks at the tool response. The result tells whether it broke there.
\<close>

fun reconnectLoop ::
  "(string \<Rightarrow> js_error + jsval) \<Rightarrow> sse_item list \<Rightarrow> check list \<Rightarrow> check list \<times> bool" where
  "reconnectLoop parse [] cs = (cs, False)"
| "reconnectLoop parse (RetryField r # rest) cs = reconnectLoop parse rest cs"
| "reconnectLoop parse (Event e # rest) cs =
     (let cs1 = cs @ [\<lparr> check_id = ''incoming-sse-event'',
                         name = ''IncomingSseEvent'',
                         status = INFO,
                         errorMessage = None,
                         details =
                           [(''eventId'', str_or_undefined (ev_id e)),
                            (''eventType'', eventType e),
                            (''data'', JStr (ev_data e))] \<rparr>]
      in if ev_data e \<noteq> [] \<and> toolResponseTest parse (ev_data e) \<noteq> None
         then (cs1, True)
         else reconnectLoop parse rest cs1)"

text \<open>
  \<open>createLoggingFetch\<close>: the request is logged, \<open>fetch\<close> is awaited (call number \<open>n\<close> of
  the run), the response is logged.
\<close>

definition outgoingRequestCheck ::
  "string \<Rightarrow> string \<Rightarrow> (string \<times> string) list \<Rightarrow> jsval \<Rightarrow> check" where
  "outgoingRequestCheck meth serverUrl hs body =
     \<lparr> check_id = ''outgoing-request'',
       name = ''OutgoingRequest'',
       status = INFO,
       errorMessage = None,
       details =
         [(''method'', JStr meth),
          (''url'', JStr serverUrl),
          (''headers'', JObj (map (\<lambda>(k, v). (k, JStr v)) hs)),
          (''body'', body)] \<rparr>"

definition incomingResponseCheck :: "fetch_response \<Rightarrow> check" where
  "incomingResponseCheck response =
     \<lparr> check_id = ''incoming-response'',
       name = ''IncomingResponse'',
       status = INFO,
       errorMessage = None,
       details =
         [(''statusCode'', JNum (real (fr_status response))),
          (''headers'', JObj (map (\<lambda>(k, v). (k, JStr v)) (fr_headers response)))] \<rparr>"

definition loggingFetch ::
  "client_env \<Rightarrow> nat \<Rightarrow> string \<Rightarrow> string \<Rightarrow> (string \<times> string) list \<Rightarrow> jsval \<Rightarrow> check list
     \<Rightarrow> check list \<times> (thrown + fetch_response)" where
  "loggingFetch env n meth serverUrl hs body cs =
     (let cs1 = cs @ [outgoingRequestCheck meth serverUrl hs body]
      in case fetch env n of
           Inl e \<Rightarrow> (cs1, Inl e)
         | Inr response \<Rightarrow> (cs1 @ [incomingResponseCheck response], Inr response))"

definition toolsCallBody :: jsval where
  "toolsCallBody =
     JObj [(''jsonrpc'', JStr ''2.0''),
           (''id'', JNum 1),
           (''method'', JStr ''tools/call''),
           (''params'', JObj [(''name'', JStr ''test_reconnection''),
                              (''arguments'', JObj [])])]"

definition postHeaders :: "string option \<Rightarrow> (string \<times> string) list" where
  "postHeaders sid =
     [(''Content-Type'', ''application/json''),
      (''Accept'', ''text/event-stream, application/json'')]
     @ (case sid of Some v \<Rightarrow> (if v \<noteq> [] then [(''mcp-session-id'', v)] else []) | None \<Rightarrow> [])
     @ [(''mcp-protocol-version'', ''2025-03-26'')]"

definition plainCheck ::
  "string \<Rightarrow> string \<Rightarrow> check_status \<Rightarrow> string option \<Rightarrow> (string \<times> jsval) list \<Rightarrow> check" where
  "plainCheck cid cname st msg ds =
     \<lparr> check_id = cid, name = cname, status = st, errorMessage = msg, details = ds \<rparr>"

text \<open>
  Step 4 of the \<open>try\<close> block, entered after the two checks on the priming event and the
  retry field: the resumption GET, or one of the two notes that it was not attempted.
\<close>

definition pollingResume ::
  "client_env \<Rightarrow> string \<Rightarrow> (string \<Rightarrow> js_error + jsval) \<Rightarrow> string option \<Rightarrow> poll_vars
     \<Rightarrow> check list \<Rightarrow> check list \<times> body_exit" where
  "pollingResume env serverUrl parse sid v cs =
     (case (lastEventId v, sid) of
        (Some lastId, Some sessId) \<Rightarrow>
          if \<not> receivedToolResponse v \<and> lastId \<noteq> [] \<and> sessId \<noteq> [] then
            (case loggingFetch env 1 ''GET'' serverUrl
                    [(''Accept'', ''text/event-stream''),
                     (''mcp-session-id'', sessId),
                     (''mcp-protocol-version'', ''2025-03-26''),
                     (''last-event-id'', lastId)]
                    JUndefined cs of
               (cs1, Inl e) \<Rightarrow> (cs1, Throws e)
             | (cs1, Inr getResponse) \<Rightarrow>
                 (case (fr_ok getResponse, fr_body getResponse) of
                    (True, Some st) \<Rightarrow>
                      (case reconnectLoop parse (concat (chunks st)) cs1 of
                         (cs2, broke) \<Rightarrow>
                           (case (broke, ending st) of
                              (False, StreamError e) \<Rightarrow> (cs2, Throws e)
                            | _ \<Rightarrow>
                                (cs2 @ [plainCheck ''server-sse-disconnect-resume''
                                          ''ServerDisconnectResume''
                                          (if broke then SUCCESS else WARNING)
                                          (if \<not> broke then
                                             Some ''Server did not send tool response after client reconnected with Last-Event-ID''
                                           else None)
                                          [(''lastEventIdUsed'', JStr lastId),
                                           (''receivedToolResponse'', JBool broke),
                                           (''message'',
                                            JStr (if broke
                                                  then ''Successfully received tool response after reconnection''
                                                  else ''Tool response not received after reconnection''))]],
                                 Completes)))
                  | _ \<Rightarrow>
                      if fr_status getResponse = 405 then
                        (cs1 @ [plainCheck ''server-sse-disconnect-resume''
                                  ''ServerDisconnectResume'' INFO None
                                  [(''statusCode'', JNum (real (fr_status getResponse))),
                                   (''message'',
                                    JStr ''Server does not support standalone GET SSE endpoint (405 Method Not Allowed)'')]],
                         Completes)
                      else
                        (cs1 @ [plainCheck ''server-sse-disconnect-resume''
                                  ''ServerDisconnectResume'' WARNING
                                  (Some (''Server did not accept reconnection with Last-Event-ID (HTTP ''
                                         @ string_of_nat (fr_status getResponse) @ '')''))
                                  [(''statusCode'', JNum (real (fr_status getResponse))),
                                   (''lastEventIdUsed'', JStr lastId),
                                   (''message'',
                                    JStr (''Server returned '' @ string_of_nat (fr_status getResponse)
                                          @ '' for GET request with Last-Event-ID''))]],
                         Completes)))
          else if receivedToolResponse v then
            (cs @ [plainCheck ''server-sse-disconnect-resume'' ''ServerDisconnectResume'' INFO None
                     [(''receivedToolResponse'', JBool True),
                      (''message'',
                       JStr ''Tool response received on initial POST stream - server did not disconnect mid-call. The test_reconnection tool should close the stream before sending the result.'')]],
             Completes)
          else
            (cs @ [plainCheck ''server-sse-disconnect-resume'' ''ServerDisconnectResume'' INFO None
                     [(''lastEventId'', str_or_undefined (lastEventId v)),
                      (''sessionId'', str_or_undefined sid),
                      (''message'',
                       JStr ''Could not test disconnect/resume - no last event ID or session ID available'')]],
             Completes)
      | _ \<Rightarrow>
          if receivedToolResponse v then
            (cs @ [plainCheck ''server-sse-disconnect-resume'' ''ServerDisconnectResume'' INFO None
                     [(''receivedToolResponse'', JBool True),
                      (''message'',
                       JStr ''Tool response received on initial POST stream - server did not disconnect mid-call. The test_reconnection tool should close the stream before sending the result.'')]],
             Completes)
          else
            (cs @ [plainCheck ''server-sse-disconnect-resume'' ''ServerDisconnectResume'' INFO None
                     [(''lastEventId'', str_or_undefined (lastEventId v)),
                      (''sessionId'', str_or_undefined sid),
                      (''message'',
                       JStr ''Could not test disconnect/resume - no last event ID or session ID available'')]],
             Completes))"

text \<open>
  Step 3 and the two checks after it, on the body of the POST response: the loop, the
  \<open>StreamClosed\<close> note, the priming-event check and the retry-field check; then step 4.
  A failing read leaves the loop by a throw.
\<close>

definition pollingStream ::
  "client_env \<Rightarrow> string \<Rightarrow> (string \<Rightarrow> js_error + jsval) \<Rightarrow> (string \<Rightarrow> string)
     \<Rightarrow> string option \<Rightarrow> sse_stream \<Rightarrow> check list \<Rightarrow> check list \<times> body_exit" where
  "pollingStream env serverUrl parse trim sid st cs =
     (case postStreamLoop parse trim (chunks st) (cs, initial_poll_vars) of
        (cs1, v) \<Rightarrow>
          (case ending st of
             StreamError e \<Rightarrow> (cs1, Throws e)
           | _ \<Rightarrow>
               let cs2 = cs1 @ [plainCheck ''stream-closed'' ''StreamClosed'' INFO None
                                  [(''eventCount'', JNum (real (eventCount v))),
                                   (''lastEventId'', str_or_undefined (lastEventId v)),
                                   (''receivedToolResponse'', JBool (receivedToolResponse v))]];
                   priming =
                     (if \<not> hasPrimingEvent v then
                        (WARNING,
                         Some ''Server did not send priming event with id and empty data on POST SSE stream. This is recommended for resumability.'')
                      else if \<not> primingEventIsFirst v then
                        (WARNING,
                         Some ''Priming event was not sent first. It should be sent immediately when the SSE stream is established.'')
                      else (SUCCESS, None));
                   cs3 = cs2 @ [plainCheck ''server-sse-priming-event'' ''ServerSendsPrimingEvent''
                                  (fst priming) (snd priming)
                                  [(''hasPrimingEvent'', JBool (hasPrimingEvent v)),
                                   (''primingEventIsFirst'', JBool (primingEventIsFirst v)),
                                   (''hasEventId'', JBool (hasEventId v)),
                                   (''lastEventId'', str_or_undefined (lastEventId v)),
                                   (''eventCount'', JNum (real (eventCount v)))]];
                   cs4 = cs3 @ [plainCheck ''server-sse-retry-field'' ''ServerSendsRetryField''
                                  (if hasRetryField v then SUCCESS else WARNING)
                                  (if \<not> hasRetryField v then
                                     Some ''Server did not send retry field. This is recommended for controlling client reconnection timing.''
                                   else None)
                                  [(''hasRetryField'', JBool (hasRetryField v)),
                                   (''retryValue'', nat_or_undefined (seenRetryValue v))]]
               in pollingResume env serverUrl parse sid v cs4))"

text \<open>
  The part of the \<open>try\<close> block after the session has been set up: the POST of the
  \<open>tools/call\<close> and the early returns on its response.
\<close>

definition pollingProbe ::
  "client_env \<Rightarrow> string \<Rightarrow> (string \<Rightarrow> js_error + jsval) \<Rightarrow> (string \<Rightarrow> string)
     \<Rightarrow> string option \<Rightarrow> check list \<Rightarrow> check list \<times> body_exit" where
  "pollingProbe env serverUrl parse trim sid cs =
     (case loggingFetch env 0 ''POST'' serverUrl (postHeaders sid) toolsCallBody cs of
        (cs1, Inl e) \<Rightarrow> (cs1, Throws e)
      | (cs1, Inr postResponse) \<Rightarrow>
          if \<not> fr_ok postResponse then
            (if fr_status postResponse = 400 \<or> fr_status postResponse = 404 then
               (cs1 @ [plainCheck ''server-sse-test-reconnection-tool'' ''ServerTestReconnectionTool''
                         WARNING
                         (Some (''Server does not implement test_reconnection tool (HTTP ''
                                @ string_of_nat (fr_status postResponse)
                                @ ''). This tool is recommended for testing SSE polling behavior.''))
                         []],
                Completes)
             else
               (cs1 @ [plainCheck ''server-sse-post-request'' ''ServerSSEPostRequest'' FAILURE
                         (Some (''Server returned HTTP '' @ string_of_nat (fr_status postResponse)))
                         []],
                Completes))
          else if \<not> is_event_stream (content_type postResponse) then
            (cs1 @ [plainCheck ''server-sse-content-type'' ''ServerSSEContentType'' INFO None
                      [(''contentType'',
                        (case content_type postResponse of None \<Rightarrow> JNull | Some v \<Rightarrow> JStr v)),
                       (''message'',
                        JStr ''Server returned JSON instead of SSE stream - priming event tests not applicable'')]],
             Completes)
          else
            (case fr_body postResponse of
               None \<Rightarrow>
                 (cs1 @ [plainCheck ''server-sse-polling-stream'' ''ServerSSEPollingStream'' FAILURE
                           (Some ''Response body is null'') []],
                  Completes)
             | Some st \<Rightarrow> pollingStream env serverUrl parse trim sid st cs1))"

text \<open>The \<open>try\<close> block of \<open>ServerSSEPollingScenario.run\<close>, and \<open>run\<close> itself.\<close>

definition pollingBody ::
  "client_env \<Rightarrow> string \<Rightarrow> (string \<Rightarrow> js_error + jsval) \<Rightarrow> (string \<Rightarrow> string)
     \<Rightarrow> body_result" where
  "pollingBody env serverUrl parse trim =
     (case construct_client env of
        Some e \<Rightarrow> \<lparr> pushed = [], client_assigned = False, exit = Throws e \<rparr>
      | None \<Rightarrow>
     (case construct_transport env of
        Some e \<Rightarrow> \<lparr> pushed = [], client_assigned = True, exit = Throws e \<rparr>
      | None \<Rightarrow>
     (case connect env of
        Some e \<Rightarrow> \<lparr> pushed = [], client_assigned = True, exit = Throws e \<rparr>
      | None \<Rightarrow>
          let sid = transport_sessionId env;
              cs = (if \<not> truthy_string sid then
                      [plainCheck ''server-sse-polling-session'' ''ServerSSEPollingSession'' WARNING
                         None
                         [(''message'',
                           JStr ''Server did not provide session ID - SSE polling tests may not work correctly'')]]
                    else [])
          in case pollingProbe env serverUrl parse trim sid cs of
               (cs', ex) \<Rightarrow> \<lparr> pushed = cs', client_assigned = True, exit = ex \<rparr>)))"

definition pollingRun ::
  "client_env \<Rightarrow> string \<Rightarrow> (string \<Rightarrow> js_error + jsval) \<Rightarrow> (string \<Rightarrow> string)
     \<Rightarrow> thrown + run_result" where
  "pollingRun env serverUrl parse trim =
     catch_finally env ''server-sse-polling-error'' ''ServerSSEPollingTest''
       (pollingBody env serverUrl parse trim)"

text \<open>
  The two notions the verdict on the streams is stated with, written on the response
  itself rather than through the functions of \<open>run\<close>. A response returns SSE when it has
  a \<open>content-type\<close> header in which \<open>text/event-stream\<close> occurs. A response is functional
  when its status is from 200 to 299, it has a body, and on that body an event arrives
  (in some chunk), or no event arrives and the body ends or stalls; what is left is a
  body that fails before any event, a missing body, and a status outside 200 to 299.
\<close>

fun is_event :: "sse_item \<Rightarrow> bool" where
  "is_event (Event e) = True"
| "is_event (RetryField r) = False"

definition returns_sse :: "fetch_response \<Rightarrow> bool" where
  "returns_sse r =
     (case map_of (fr_headers r) ''content-type'' of
        None \<Rightarrow> False
      | Some v \<Rightarrow> sublist ''text/event-stream'' v)"

definition stream_functional :: "fetch_response \<Rightarrow> bool" where
  "stream_functional r =
     (200 \<le> fr_status r \<and> fr_status r \<le> 299 \<and>
      (case fr_body r of
         None \<Rightarrow> False
       | Some st \<Rightarrow>
           list_ex is_event (concat (chunks st))
           \<or> ending st = EndOfStream \<or> ending st = Stalls))"

text \<open>
  Example responses and runs. SSE responses: one whose first event arrives before the
  stream stalls, one whose first event arrives before the stream fails, one that stalls
  with no event, one whose read fails, one with status 503; and a JSON response. A
  server that answers the requests with given responses, one that refuses the
  connection, and one without session ids on which the first \<open>fetch\<close> fails.
\<close>

definition priming_event :: sse_event where
  "priming_event = \<lparr> ev_id = Some ''1'', ev_event = None, ev_data = [] \<rparr>"

definition sse_ok :: fetch_response where
  "sse_ok =
     \<lparr> fr_status = 200,
       fr_headers = [(''content-type'', ''text/event-stream'')],
       fr_body = Some \<lparr> chunks = [[RetryField 500, Event priming_event]], ending = Stalls \<rparr> \<rparr>"

definition sse_cut :: fetch_response where
  "sse_cut =
     \<lparr> fr_status = 200,
       fr_headers = [(''content-type'', ''text/event-stream; charset=utf-8'')],
       fr_body = Some \<lparr> chunks = [[RetryField 500], [Event priming_event]],
                        ending = StreamError (OtherValue ''socket hang up'') \<rparr> \<rparr>"

definition sse_silent :: fetch_response where
  "sse_silent =
     \<lparr> fr_status = 200,
       fr_headers = [(''content-type'', ''text/event-stream'')],
       fr_body = Some \<lparr> chunks = [[RetryField 500]], ending = Stalls \<rparr> \<rparr>"

definition sse_broken :: fetch_response where
  "sse_broken =
     \<lparr> fr_status = 200,
       fr_headers = [(''content-type'', ''text/event-stream'')],
       fr_body = Some \<lparr> chunks = [],
                        ending = StreamError (ErrorObject (JsError ''TypeError'' ''terminated'')) \<rparr> \<rparr>"

definition sse_unavailable :: fetch_response where
  "sse_unavailable =
     \<lparr> fr_status = 503,
       fr_headers = [(''content-type'', ''text/event-stream'')],
       fr_body = Some \<lparr> chunks = [[Event priming_event]], ending = Stalls \<rparr> \<rparr>"

definition json_reply :: fetch_response where
  "json_reply =
     \<lparr> fr_status = 200,
       fr_headers = [(''content-type'', ''application/json'')],
       fr_body = Some \<lparr> chunks = [], ending = EndOfStream \<rparr> \<rparr>"

definition answering_env :: "fetch_response list \<Rightarrow> client_env" where
  "answering_env rs =
     \<lparr> construct_client = None, construct_transport = None, connect = None,
       transport_sessionId = Some ''session-1'',
       fetch = (\<lambda>n. if n < length rs then Inr (rs ! n)
                     else Inl (ErrorObject (JsError ''TypeError'' ''fetch failed''))),
       close = None \<rparr>"

fun mixed_fetch :: "nat \<Rightarrow> thrown + fetch_response" where
  "mixed_fetch n = (if n = 0 then Inr sse_ok else if n = 1 then Inr sse_broken else Inr json_reply)"

definition mixed_env :: client_env where
  "mixed_env =
     \<lparr> construct_client = None, construct_transport = None, connect = None,
       transport_sessionId = Some ''session-1'', fetch = mixed_fetch, close = None \<rparr>"

definition refusing_env :: client_env where
  "refusing_env =
     \<lparr> construct_client = None, construct_transport = None,
       connect = Some (ErrorObject (JsError ''Error'' ''connect ECONNREFUSED 127.0.0.1:3000'')),
       transport_sessionId = None, fetch = mixed_fetch, close = None \<rparr>"

fun failing_fetch :: "nat \<Rightarrow> thrown + fetch_response" where
  "failing_fetch n = Inl (ErrorObject (JsError ''TypeError'' ''fetch failed''))"

definition sessionless_env :: client_env where
  "sessionless_env =
     \<lparr> construct_client = None, construct_transport = None, connect = None,
       transport_sessionId = None, fetch = failing_fetch,
       close = Some (ErrorObject (JsError ''Error'' ''Not connected'')) \<rparr>"

fun no_parse :: "string \<Rightarrow> js_error + jsval" where
  "no_parse s = Inl (JsError ''SyntaxError'' ''Unexpected token'')"

text \<open>A \<open>trim\<close> for strings without white space other than the space character.\<close>

definition space_trim :: "string \<Rightarrow> string" where
  "space_trim s = rev (dropWhile (\<lambda>c. c = CHR '' '') (rev (dropWhile (\<lambda>c. c = CHR '' '') s)))"

section \<open>Properties of the server-role harness\<close>

subsection \<open>What generateChecks appends\<close>

lemma verdicts_ignore_checks:
  "noReconnectCheck (s\<lparr>checks := cs\<rparr>) = noReconnectCheck s"
  "reconnectCheck (s\<lparr>checks := cs\<rparr>) = reconnectCheck s"
  "lastEventIdCheck (s\<lparr>checks := cs\<rparr>) = lastEventIdCheck s"
  "retryTimingCheck (s\<lparr>checks := cs\<rparr>) d = retryTimingCheck s d"
  "retryTimingUnmeasured (s\<lparr>checks := cs\<rparr>) = retryTimingUnmeasured s"
  by (simp_all add: noReconnectCheck_def reconnectCheck_def lastEventIdCheck_def
      retryTimingCheck_def retryTimingUnmeasured_def Let_def)

lemma generateChecks_none:
  "getConnectionCount s < 1 \<Longrightarrow> checks (generateChecks sub s) = checks s @ [noReconnectCheck s]"
  by (simp add: generateChecks_def push_def)

lemma generateChecks_reconnected:
  "1 \<le> getConnectionCount s \<Longrightarrow> toolStreamCloseTime s = Some c \<Longrightarrow>
   getReconnectionTime s = Some r \<Longrightarrow>
   checks (generateChecks sub s) =
     checks s @ [reconnectCheck s, retryTimingCheck s (sub r c), lastEventIdCheck s]"
  by (simp add: generateChecks_def Let_def push_def retryTimingCheck_def lastEventIdCheck_def)

lemma generateChecks_unmeasured:
  "1 \<le> getConnectionCount s \<Longrightarrow>
   toolStreamCloseTime s = None \<or> getReconnectionTime s = None \<Longrightarrow>
   checks (generateChecks sub s) =
     checks s @ [reconnectCheck s, retryTimingUnmeasured s, lastEventIdCheck s]"
  by (auto simp add: generateChecks_def Let_def push_def retryTimingUnmeasured_def
      lastEventIdCheck_def split: option.splits)

lemma generateChecks_fields:
  "generateChecks sub s = s\<lparr>checks := checks (generateChecks sub s)\<rparr>"
  by (simp add: generateChecks_def Let_def push_def split: option.splits)

lemma generateChecks_twice:
  "checks (generateChecks sub (generateChecks sub s)) =
     checks s @ drop (length (checks s)) (checks (generateChecks sub s))
              @ drop (length (checks s)) (checks (generateChecks sub s))"
proof (cases "getConnectionCount s < 1")
  case True
  have "generateChecks sub s = s\<lparr>checks := checks s @ [noReconnectCheck s]\<rparr>"
    using generateChecks_fields [where s = s and sub = sub] generateChecks_none [OF True] by simp
  then show ?thesis
    using True by (simp add: generateChecks_none verdicts_ignore_checks)
next
  case False
  then have conn: "1 \<le> getConnectionCount s" by simp
  show ?thesis
  proof (cases "toolStreamCloseTime s = None \<or> getReconnectionTime s = None")
    case True
    have "generateChecks sub s =
        s\<lparr>checks := checks s @ [reconnectCheck s, retryTimingUnmeasured s, lastEventIdCheck s]\<rparr>"
      using generateChecks_fields [where s = s and sub = sub] generateChecks_unmeasured [OF conn True] by simp
    then show ?thesis
      using conn True by (simp add: generateChecks_unmeasured verdicts_ignore_checks)
  next
    case False
    then obtain c r where cr: "toolStreamCloseTime s = Some c" "getReconnectionTime s = Some r"
      by auto
    have "generateChecks sub s =
        s\<lparr>checks := checks s @ [reconnectCheck s, retryTimingCheck s (sub r c), lastEventIdCheck s]\<rparr>"
      using generateChecks_fields [where s = s and sub = sub] generateChecks_reconnected [OF conn cr] by simp
    then show ?thesis
      using conn cr by (simp add: generateChecks_reconnected verdicts_ignore_checks)
  qed
qed

lemma verdict_names:
  "map name (drop (length (checks s)) (checks (generateChecks sub s))) =
     (if getConnectionCount s < 1 then [''ClientGracefulReconnect'']
      else [''ClientGracefulReconnect'', ''ClientRespectsRetryField'', ''ClientSendsLastEventId''])"
  by (simp add: generateChecks_def Let_def push_def retryTimingCheck_def lastEventIdCheck_def
      retryTimingUnmeasured_def reconnectCheck_def noReconnectCheck_def split: option.splits)

lemma retryTimingCheck_status:
  "retryValue s = 500 \<Longrightarrow>
   status (retryTimingCheck s d) =
     (if d < 450 then FAILURE else if 1000 < d then FAILURE
      else if 700 < d then WARNING else SUCCESS)"
  by (simp add: retryTimingCheck_def Let_def EARLY_TOLERANCE_def LATE_TOLERANCE_def
      VERY_LATE_MULTIPLIER_def)

lemma string_of_nat_500: "string_of_nat 500 = ''500''"
  by (simp add: string_of_nat.simps digit_char_def)

lemma retryTimingCheck_message:
  "retryValue s = 500 \<Longrightarrow>
   errorMessage (retryTimingCheck s d) =
     (if d < 450 then
        Some (''Client reconnected too early ('' @ toFixed0 d
          @ ''ms instead of 500ms). Client MUST respect the retry field and wait the specified time.'')
      else if 1000 < d then
        Some (''Client reconnected very late ('' @ toFixed0 d
          @ ''ms instead of 500ms). Client appears to be ignoring the retry field and using its own backoff strategy.'')
      else if 700 < d then
        Some (''Client reconnected slightly late ('' @ toFixed0 d
          @ ''ms instead of 500ms). This is acceptable but may indicate network delays.'')
      else None)"
  by (simp add: retryTimingCheck_def Let_def EARLY_TOLERANCE_def LATE_TOLERANCE_def
      VERY_LATE_MULTIPLIER_def string_of_nat_500)

lemma toFixed0_examples:
  "toFixed0 440 = ''440''" "toFixed0 449 = ''449''" "toFixed0 701 = ''701''"
  "toFixed0 1001 = ''1001''" "toFixed0 1000 = ''1000''"
  by (simp_all add: toFixed0_def string_of_nat.simps digit_char_def)

subsection \<open>C1: the reconnection-timing decision\<close>

text \<open>
  C1. With \<open>retryValue = 500\<close> and the tolerances of the class, the
  \<open>ClientRespectsRetryField\<close> check for an observed delay is FAILURE with the message
  \<open>reconnected too early\<close> below 450, FAILURE with the message \<open>reconnected very late\<close>
  above 1000, WARNING with the message \<open>reconnected slightly late\<close> above 700 and up to
  1000, and SUCCESS without a message otherwise. The eight boundary values of the
  specification come out as listed. The check that \<open>generateChecks\<close> appends second, once
  both instants are recorded, is this check at the delay that the subtraction of the two
  doubles gives.
\<close>

theorem retry_timing_decision:
  "retryValue s = 500 \<Longrightarrow>
     status (retryTimingCheck s d) =
       (if d < 450 then FAILURE else if 1000 < d then FAILURE
        else if 700 < d then WARNING else SUCCESS)
     \<and> errorMessage (retryTimingCheck s d) =
       (if d < 450 then
          Some (''Client reconnected too early ('' @ toFixed0 d
            @ ''ms instead of 500ms). Client MUST respect the retry field and wait the specified time.'')
        else if 1000 < d then
          Some (''Client reconnected very late ('' @ toFixed0 d
            @ ''ms instead of 500ms). Client appears to be ignoring the retry field and using its own backoff strategy.'')
        else if 700 < d then
          Some (''Client reconnected slightly late ('' @ toFixed0 d
            @ ''ms instead of 500ms). This is acceptable but may indicate network delays.'')
        else None)
     \<and> name (retryTimingCheck s d) = ''ClientRespectsRetryField''
     \<and> status (retryTimingCheck s 540) = SUCCESS
     \<and> errorMessage (retryTimingCheck s 540) = None
     \<and> status (retryTimingCheck s 440) = FAILURE
     \<and> errorMessage (retryTimingCheck s 440) =
         Some ''Client reconnected too early (440ms instead of 500ms). Client MUST respect the retry field and wait the specified time.''
     \<and> status (retryTimingCheck s 449) = FAILURE
     \<and> errorMessage (retryTimingCheck s 449) =
         Some ''Client reconnected too early (449ms instead of 500ms). Client MUST respect the retry field and wait the specified time.''
     \<and> status (retryTimingCheck s 450) = SUCCESS
     \<and> errorMessage (retryTimingCheck s 450) = None
     \<and> status (retryTimingCheck s 701) = WARNING
     \<and> errorMessage (retryTimingCheck s 701) =
         Some ''Client reconnected slightly late (701ms instead of 500ms). This is acceptable but may indicate network delays.''
     \<and> status (retryTimingCheck s 700) = SUCCESS
     \<and> errorMessage (retryTimingCheck s 700) = None
     \<and> status (retryTimingCheck s 1001) = FAILURE
     \<and> errorMessage (retryTimingCheck s 1001) =
         Some ''Client reconnected very late (1001ms instead of 500ms). Client appears to be ignoring the retry field and using its own backoff strategy.''
     \<and> status (retryTimingCheck s 1000) = WARNING
     \<and> errorMessage (retryTimingCheck s 1000) =
         Some ''Client reconnected slightly late (1000ms instead of 500ms). This is acceptable but may indicate network delays.''
     \<and> (1 \<le> getConnectionCount s \<and> toolStreamCloseTime s = Some c
          \<and> getReconnectionTime s = Some r \<longrightarrow>
        checks (generateChecks sub s) ! Suc (length (checks s)) = retryTimingCheck s (sub r c))"
proof -
  assume r: "retryValue s = 500"
  have n: "name (retryTimingCheck s d) = ''ClientRespectsRetryField''"
    by (simp add: retryTimingCheck_def Let_def)
  have g: "1 \<le> getConnectionCount s \<and> toolStreamCloseTime s = Some c
          \<and> getReconnectionTime s = Some r \<longrightarrow>
        checks (generateChecks sub s) ! Suc (length (checks s)) = retryTimingCheck s (sub r c)"
    by (simp add: generateChecks_reconnected nth_append)
  show ?thesis
    using n g
    by (simp add: retryTimingCheck_status [OF r] retryTimingCheck_message [OF r]
        toFixed0_examples)
qed

theorem retry_timing_decision_witness:
  "retryValue probe_state = 500
   \<and> 1 \<le> getConnectionCount probe_state
   \<and> toolStreamCloseTime probe_state = Some 100
   \<and> getReconnectionTime probe_state = Some 640
   \<and> exact_sub 640 100 = 540
   \<and> status (retryTimingCheck probe_state 540) = SUCCESS
   \<and> status (retryTimingCheck probe_state 300) = FAILURE
   \<and> errorMessage (retryTimingCheck probe_state 300) =
       Some ''Client reconnected too early (300ms instead of 500ms). Client MUST respect the retry field and wait the specified time.''
   \<and> status (checks (generateChecks exact_sub probe_state) ! Suc (length (checks probe_state)))
       = SUCCESS"
proof -
  have t: "toFixed0 300 = ''300''"
    by (simp add: toFixed0_def string_of_nat.simps digit_char_def)
  from retry_timing_decision [where s = probe_state and d = 540 and c = 100 and r = 640
      and sub = exact_sub]
    retry_timing_decision [where s = probe_state and d = 300 and c = 100 and r = 640
      and sub = exact_sub]
  show ?thesis
    by (simp add: probe_state_def new_SSERetryScenario_def exact_sub_def t)
qed

subsection \<open>C2: the deferred response is delivered at most once\<close>

lemma get_pending:
  "pendingToolCallId s \<noteq> JNull \<Longrightarrow>
   handleGetSSEStream f s rid new_response = (s1, res1) \<Longrightarrow>
   written res1 =
     [primingContent (event_id (eventIdCounter s + 1)) (retryValue s),
      responseContent f (event_id (eventIdCounter s + 2)) (toolResponse (pendingToolCallId s))]
   \<and> statusCode res1 = Some 200 \<and> \<not> ended res1
   \<and> pendingToolCallId s1 = JNull
   \<and> eventIdCounter s1 = eventIdCounter s + 2 \<and> retryValue s1 = retryValue s"
  by (auto simp add: handleGetSSEStream_def Let_def push_def writeHead_def res_write_def
      new_response_def)

lemma get_idle:
  "pendingToolCallId s = JNull \<Longrightarrow>
   handleGetSSEStream f s rid new_response = (s1, res1) \<Longrightarrow>
   written res1 = [primingContent (event_id (eventIdCounter s + 1)) (retryValue s)]
   \<and> statusCode res1 = Some 200 \<and> \<not> ended res1
   \<and> pendingToolCallId s1 = JNull
   \<and> eventIdCounter s1 = eventIdCounter s + 1 \<and> retryValue s1 = retryValue s"
  by (auto simp add: handleGetSSEStream_def Let_def push_def writeHead_def res_write_def
      new_response_def)

lemma get_headers:
  "handleGetSSEStream f s rid new_response = (s1, res1) \<Longrightarrow>
   statusCode res1 = Some 200 \<and>
   map_of (resHeaders res1) ''Content-Type'' = Some ''text/event-stream''"
  by (auto simp add: handleGetSSEStream_def Let_def push_def writeHead_def res_write_def
      new_response_def sse_headers_def split: if_splits)

lemma toolResponse_id: "get_prop (toolResponse p) ''id'' = Inr p"
  by (simp add: toolResponse_def)

lemma request_get_pending:
  "reqMethod req = ''GET'' \<Longrightarrow>
   handleRequest f now s rid req res =
     (case handleGetSSEStream f
        (let s3 = push \<lparr> check_id = ''incoming-request'', name = ''IncomingRequest'',
                    status = INFO, errorMessage = None,
                    details =
                      [(''method'', JStr ''GET''),
                       (''url'', JStr (reqUrl req)),
                       (''headers'', JObj (map (\<lambda>(k, v). (k, JStr v)) (reqHeaders req))),
                       (''connectionCount'', JNum (real (getConnectionCount s + 1)))] \<rparr>
                   (s\<lparr>getConnectionCount := getConnectionCount s + 1,
                      getReconnectionTime := Some now\<rparr>)
         in if truthy_header (map_of (reqHeaders req) ''last-event-id'')
            then s3\<lparr>lastEventIds := lastEventIds s3 @ [map_of (reqHeaders req) ''last-event-id'']\<rparr>
            else s3) rid res of (s5, res5) \<Rightarrow> (s5, res5, []))"
  by (simp add: handleRequest_def Let_def)

lemma get_keeps_empty_slot:
  "pendingToolCallId s = JNull \<Longrightarrow>
   pendingToolCallId (fst (handleGetSSEStream f s rid res)) = JNull"
  by (simp add: handleGetSSEStream_def Let_def push_def)

lemma post_keeps_slot:
  "handlePostRequest f s req res = (s', res', ts) \<Longrightarrow>
   \<not> is_tools_call (Incoming now req) \<Longrightarrow> reqMethod req = ''POST'' \<Longrightarrow>
   pendingToolCallId s' = pendingToolCallId s"
  unfolding handlePostRequest_def Let_def
  by (auto simp add: handleInitialize_def handleToolsList_def push_def Let_def
      split: sum.splits if_splits prod.splits)

lemma request_keeps_empty_slot:
  "pendingToolCallId s = JNull \<Longrightarrow> \<not> is_tools_call (Incoming now req) \<Longrightarrow>
   handleRequest f now s rid req res = (s', res', ts) \<Longrightarrow>
   pendingToolCallId s' = JNull"
proof -
  assume e: "pendingToolCallId s = JNull" and n: "\<not> is_tools_call (Incoming now req)"
    and h: "handleRequest f now s rid req res = (s', res', ts)"
  show ?thesis
  proof (cases "reqMethod req = ''GET''")
    case True
    from h show ?thesis
      unfolding request_get_pending [OF True]
      by (auto simp add: Let_def push_def e split: prod.splits if_splits
          dest!: arg_cong [where f = fst] 
          simp: get_keeps_empty_slot)
  next
    case False
    show ?thesis
    proof (cases "reqMethod req = ''POST''")
      case True
      with h False have "handlePostRequest f s req res = (s', res', ts)"
        by (simp add: handleRequest_def)
      from post_keeps_slot [OF this n True] e show ?thesis by simp
    next
      case False
      with h \<open>reqMethod req \<noteq> ''GET''\<close> e show ?thesis
        by (simp add: handleRequest_def)
    qed
  qed
qed

lemma step_keeps_empty_slot:
  "pendingToolCallId (scenario w) = JNull \<Longrightarrow> \<not> is_tools_call ev \<Longrightarrow>
   pendingToolCallId (scenario (step f w ev)) = JNull"
proof (cases ev)
  case (Incoming now req)
  assume e: "pendingToolCallId (scenario w) = JNull" and n: "\<not> is_tools_call ev"
  obtain s' res' ts where
    h: "handleRequest f now (scenario w) (length (responses w)) req new_response = (s', res', ts)"
    by (metis prod_cases3)
  from request_keeps_empty_slot [OF e _ h] n Incoming have "pendingToolCallId s' = JNull"
    by simp
  then show ?thesis using Incoming h by (simp add: step_def Let_def)
next
  case (TimerFires now k)
  assume e: "pendingToolCallId (scenario w) = JNull"
  then show ?thesis using TimerFires
    by (simp add: step_def Let_def toolStreamTimeout_def push_def)
qed

lemma run_keeps_empty_slot:
  "pendingToolCallId (scenario w) = JNull \<Longrightarrow> \<forall>e\<in>set evs. \<not> is_tools_call e \<Longrightarrow>
   pendingToolCallId (scenario (run_events f w evs)) = JNull"
proof (induction evs arbitrary: w)
  case Nil
  then show ?case by (simp add: run_events_def)
next
  case (Cons ev evs)
  have "run_events f w (ev # evs) = run_events f (step f w ev) evs"
    by (simp add: run_events_def)
  with Cons show ?case
    by (simp add: step_keeps_empty_slot)
qed

lemma step_get_idle:
  "pendingToolCallId (scenario w) = JNull \<Longrightarrow> reqMethod req = ''GET'' \<Longrightarrow>
   written (last (responses (step f w (Incoming now req)))) =
     [primingContent (event_id (eventIdCounter (scenario w) + 1)) (retryValue (scenario w))]
   \<and> pendingToolCallId (scenario (step f w (Incoming now req))) = JNull"
  by (simp add: step_def request_get_pending handleGetSSEStream_def Let_def push_def
      writeHead_def res_write_def new_response_def)

lemma pending_state_slot: "pendingToolCallId pending_state = JNum 7"
  by (simp add: pending_state_def handleRequest_def handlePostRequest_def tools_call_7_def
      handleToolsCall_def Let_def push_def new_SSERetryScenario_def)

lemma priming_literal:
  "primingContent (event_id n) r =
     ''id: event-'' @ string_of_nat n @ ''\<newline>retry: '' @ string_of_nat r
       @ ''\<newline>data: \<newline>\<newline>''"
  by (simp add: primingContent_def event_id_def)

lemma response_literal:
  "responseContent f (event_id n) (toolResponse p) =
     ''event: message\<newline>id: event-'' @ string_of_nat n @ ''\<newline>data: ''
       @ f (JObj [(''jsonrpc'', JStr ''2.0''),
                  (''id'', p),
                  (''result'',
                   JObj [(''content'',
                          JArr [JObj [(''type'', JStr ''text''),
                                      (''text'', JStr ''Reconnection test completed successfully'')]])])])
       @ ''\<newline>\<newline>''"
  by (simp add: responseContent_def event_id_def toolResponse_def)

text \<open>
  C2. When \<open>handleGetSSEStream\<close> finds \<open>pendingToolCallId\<close> non-null, what it writes to the
  stream is the priming frame and then exactly one frame \<open>event: message\<close> whose data is
  the JSON text of the JSON-RPC result with the stored request id as its \<open>id\<close>; it sets
  the slot to null. A second GET right after it receives only a fresh priming frame.
  More generally, once the slot is null it stays null over any sequence of events that
  contains no new \<open>tools/call\<close>, and a GET after such a sequence receives only a priming
  frame.
\<close>

theorem pending_response_delivered_once:
  "pendingToolCallId s \<noteq> JNull \<Longrightarrow>
   (case handleGetSSEStream f s rid new_response of
      (s1, res1) \<Rightarrow>
        statusCode res1 = Some 200
        \<and> map_of (resHeaders res1) ''Content-Type'' = Some ''text/event-stream''
        \<and> written res1 =
          [''id: event-'' @ string_of_nat (eventIdCounter s + 1) @ ''\<newline>retry: ''
             @ string_of_nat (retryValue s) @ ''\<newline>data: \<newline>\<newline>'',
           ''event: message\<newline>id: event-'' @ string_of_nat (eventIdCounter s + 2)
             @ ''\<newline>data: ''
             @ f (JObj [(''jsonrpc'', JStr ''2.0''),
                        (''id'', pendingToolCallId s),
                        (''result'',
                         JObj [(''content'',
                                JArr [JObj [(''type'', JStr ''text''),
                                            (''text'',
                                             JStr ''Reconnection test completed successfully'')]])])])
             @ ''\<newline>\<newline>'']
        \<and> pendingToolCallId s1 = JNull
        \<and> (case handleGetSSEStream f s1 rid' new_response of
              (s2, res2) \<Rightarrow>
                written res2 =
                  [''id: event-'' @ string_of_nat (eventIdCounter s + 3) @ ''\<newline>retry: ''
                     @ string_of_nat (retryValue s) @ ''\<newline>data: \<newline>\<newline>'']
                \<and> pendingToolCallId s2 = JNull)
        \<and> (scenario w = s1 \<and> (\<forall>e\<in>set evs. \<not> is_tools_call e) \<and> reqMethod req = ''GET'' \<longrightarrow>
             written (last (responses (step f (run_events f w evs) (Incoming now req)))) =
               [''id: event-''
                  @ string_of_nat (eventIdCounter (scenario (run_events f w evs)) + 1)
                  @ ''\<newline>retry: ''
                  @ string_of_nat (retryValue (scenario (run_events f w evs)))
                  @ ''\<newline>data: \<newline>\<newline>'']
             \<and> pendingToolCallId (scenario (step f (run_events f w evs) (Incoming now req)))
                 = JNull))"
proof -
  assume p: "pendingToolCallId s \<noteq> JNull"
  obtain s1 res1 where h1: "handleGetSSEStream f s rid new_response = (s1, res1)"
    by (metis surj_pair)
  obtain s2 res2 where h2: "handleGetSSEStream f s1 rid' new_response = (s2, res2)"
    by (metis surj_pair)
  note a = get_pending [OF p h1]
  then have e1: "pendingToolCallId s1 = JNull" by simp
  note b = get_idle [OF e1 h2]
  note hd = get_headers [OF h1]
  have c: "scenario w = s1 \<and> (\<forall>e\<in>set evs. \<not> is_tools_call e) \<and> reqMethod req = ''GET'' \<longrightarrow>
      written (last (responses (step f (run_events f w evs) (Incoming now req)))) =
        [primingContent
           (event_id (eventIdCounter (scenario (run_events f w evs)) + 1))
           (retryValue (scenario (run_events f w evs)))]
      \<and> pendingToolCallId (scenario (step f (run_events f w evs) (Incoming now req))) = JNull"
  proof (intro impI, elim conjE)
    assume "scenario w = s1" and ne: "\<forall>e\<in>set evs. \<not> is_tools_call e"
      and g: "reqMethod req = ''GET''"
    with e1 have "pendingToolCallId (scenario w) = JNull" by simp
    from run_keeps_empty_slot [OF this ne]
    have "pendingToolCallId (scenario (run_events f w evs)) = JNull" .
    from step_get_idle [OF this g] show
      "written (last (responses (step f (run_events f w evs) (Incoming now req)))) =
        [primingContent
           (event_id (eventIdCounter (scenario (run_events f w evs)) + 1))
           (retryValue (scenario (run_events f w evs)))]
      \<and> pendingToolCallId (scenario (step f (run_events f w evs) (Incoming now req))) = JNull" .
  qed
  show ?thesis
    using a b c hd
    by (simp add: h1 h2 eval_nat_numeral priming_literal response_literal)
qed

theorem pending_response_delivered_once_witness:
  \<open>pendingToolCallId pending_state \<noteq> JNull
   \<and> \<not> is_tools_call (Incoming 700 bare_get)
   \<and> \<not> is_tools_call (Incoming 800 initialized_notification)
   \<and> reqMethod bare_get = ''GET''
   \<and> written (snd (handleGetSSEStream sample_stringify pending_state 5 new_response)) =
       [''id: event-2\<newline>retry: 500\<newline>data: \<newline>\<newline>'',
        ''event: message\<newline>id: event-3\<newline>data: {"jsonrpc":"2.0","id":7,"result":{"content":[{"type":"text","text":"Reconnection test completed successfully"}]}}\<newline>\<newline>'']
   \<and> written (snd (handleGetSSEStream sample_stringify
        (fst (handleGetSSEStream sample_stringify pending_state 5 new_response)) 6
        new_response)) =
       [''id: event-4\<newline>retry: 500\<newline>data: \<newline>\<newline>'']
   \<and> written (last (responses
        (step sample_stringify
          (run_events sample_stringify
            \<lparr> scenario = fst (handleGetSSEStream sample_stringify pending_state 5 new_response),
              responses = [], timers = [], wire = [] \<rparr>
            [Incoming 700 bare_get, Incoming 800 initialized_notification])
          (Incoming 900 bare_get)))) =
       [''id: event-5\<newline>retry: 500\<newline>data: \<newline>\<newline>'']\<close>
proof -
  have p: "pendingToolCallId pending_state \<noteq> JNull"
    by (simp add: pending_state_slot)
  have n: "\<forall>e\<in>set [Incoming 700 bare_get, Incoming 800 initialized_notification].
      \<not> is_tools_call e"
    by (simp add: bare_get_def initialized_notification_def)
  have g: "reqMethod bare_get = ''GET''"
    by (simp add: bare_get_def)
  have c: "eventIdCounter pending_state = 1" "retryValue pending_state = 500"
    by (simp_all add: pending_state_def handleRequest_def handlePostRequest_def tools_call_7_def
        handleToolsCall_def Let_def push_def new_SSERetryScenario_def)
  have k: "eventIdCounter (scenario (run_events sample_stringify
            \<lparr> scenario = fst (handleGetSSEStream sample_stringify pending_state 5 new_response),
              responses = [], timers = [], wire = [] \<rparr>
            [Incoming 700 bare_get, Incoming 800 initialized_notification])) = 4"
    "retryValue (scenario (run_events sample_stringify
            \<lparr> scenario = fst (handleGetSSEStream sample_stringify pending_state 5 new_response),
              responses = [], timers = [], wire = [] \<rparr>
            [Incoming 700 bare_get, Incoming 800 initialized_notification])) = 500"
    using p
    by (simp_all add: run_events_def step_def handleRequest_def handlePostRequest_def
        handleGetSSEStream_def bare_get_def initialized_notification_def Let_def push_def c)
  have d: "string_of_nat (Suc (Suc 0)) = ''2''" "string_of_nat (Suc (Suc (Suc 0))) = ''3''"
    "string_of_nat 4 = ''4''" "string_of_nat 5 = ''5''" "string_of_nat 7 = ''7''"
    "string_of_nat 2 = ''2''" "string_of_nat 3 = ''3''"
    by (simp_all add: string_of_nat.simps digit_char_def)
  from pending_response_delivered_once [OF p, where f = sample_stringify and rid = 5
      and rid' = 6
      and w = "\<lparr> scenario = fst (handleGetSSEStream sample_stringify pending_state 5 new_response),
         responses = [], timers = [], wire = [] \<rparr>"
      and evs = "[Incoming 700 bare_get, Incoming 800 initialized_notification]"
      and req = bare_get and now = 900]
    p n g
  show ?thesis
    by (simp add: case_prod_beta c k d pending_state_slot string_of_nat_500)
qed

subsection \<open>C3: event ids are minted from one counter\<close>

text \<open>
  The two handlers that write SSE events log each one as they write it: what a handler
  has written to its response is exactly the \<open>raw\<close> text of the \<open>OutgoingSseEvent\<close> checks
  it has pushed, in order.
\<close>

lemma get_written_is_logged:
  "handleGetSSEStream f s rid new_response = (s', res') \<Longrightarrow>
   written res' = concat (map check_raw (drop (length (checks s)) (checks s')))"
  by (auto simp add: handleGetSSEStream_def Let_def push_def writeHead_def res_write_def
      new_response_def check_raw_def split: if_splits)

lemma toolscall_written_is_logged:
  "handleToolsCall s new_response rq = (s', res', ts) \<Longrightarrow>
   written res' = concat (map check_raw (drop (length (checks s)) (checks s')))"
  by (auto simp add: handleToolsCall_def Let_def push_def writeHead_def res_write_def
      new_response_def check_raw_def)

lemma digit_val_digit_char: "d < 10 \<Longrightarrow> digit_val (digit_char d) = d"
proof -
  assume "d < 10"
  then have "d \<in> {0, 1, 2, 3, 4, 5, 6, 7, 8, 9}" by auto
  then show ?thesis
    by (auto simp: digit_val_def digit_char_def)
qed

lemma nat_of_string_of_nat: "nat_of_string (string_of_nat n) = n"
proof (induction n rule: string_of_nat.induct)
  case (1 n)
  show ?case
  proof (cases "n < 10")
    case True
    then show ?thesis
      by (subst string_of_nat.simps) (simp add: nat_of_string_def digit_val_digit_char)
  next
    case False
    with 1 have IH: "nat_of_string (string_of_nat (n div 10)) = n div 10" by simp
    from False show ?thesis
      using IH by (subst string_of_nat.simps) (simp add: nat_of_string_def digit_val_digit_char)
  qed
qed

lemma event_num_event_id: "event_num (event_id n) = n"
  by (simp add: event_num_def event_id_def nat_of_string_of_nat)

lemma inj_event_id: "inj event_id"
  by (rule inj_on_inverseI [where g = event_num]) (simp add: event_num_event_id)

lemma minted_range:
  "sorted_wrt (<) (map event_num (map event_id [a..<b])) \<and> distinct (map event_id [a..<b])"
proof -
  have "map event_num (map event_id [a..<b]) = [a..<b]"
    by (simp add: event_num_event_id comp_def)
  moreover have "distinct (map event_id [a..<b])"
    by (simp add: distinct_map inj_on_subset [OF inj_event_id])
  ultimately show ?thesis by (simp add: sorted_wrt_upt)
qed

lemma get_emits:
  "handleGetSSEStream f s rid res = (s', res') \<Longrightarrow>
   eventIdCounter s \<le> eventIdCounter s' \<and>
   emitted_event_ids s' =
     emitted_event_ids s @ map event_id [Suc (eventIdCounter s)..<Suc (eventIdCounter s')]"
  by (auto simp add: handleGetSSEStream_def Let_def emitted_event_ids_def check_event_id_def
      push_def split: if_splits)

lemma toolscall_emits:
  "handleToolsCall s res rq = (s', res', ts) \<Longrightarrow>
   eventIdCounter s \<le> eventIdCounter s' \<and>
   emitted_event_ids s' =
     emitted_event_ids s @ map event_id [Suc (eventIdCounter s)..<Suc (eventIdCounter s')]"
  by (auto simp add: handleToolsCall_def Let_def emitted_event_ids_def check_event_id_def
      push_def)

lemma timeout_emits:
  "toolStreamTimeout now s res = (s', res') \<Longrightarrow>
   eventIdCounter s' = eventIdCounter s \<and> emitted_event_ids s' = emitted_event_ids s"
  by (auto simp add: toolStreamTimeout_def Let_def emitted_event_ids_def check_event_id_def
      push_def)

lemma post_emits:
  "handlePostRequest f s req res = (s', res', ts) \<Longrightarrow>
   eventIdCounter s \<le> eventIdCounter s' \<and>
   emitted_event_ids s' =
     emitted_event_ids s @ map event_id [Suc (eventIdCounter s)..<Suc (eventIdCounter s')]"
  unfolding handlePostRequest_def Let_def
  by (auto simp add: handleInitialize_def handleToolsList_def outgoingResponse_def
      emitted_event_ids_def check_event_id_def push_def Let_def
      dest!: toolscall_emits
      split: sum.splits if_splits prod.splits)

lemma request_emits:
  "handleRequest f now s rid req res = (s', res', ts) \<Longrightarrow>
   eventIdCounter s \<le> eventIdCounter s' \<and>
   emitted_event_ids s' =
     emitted_event_ids s @ map event_id [Suc (eventIdCounter s)..<Suc (eventIdCounter s')]"
  unfolding handleRequest_def Let_def
  by (auto simp add: emitted_event_ids_def check_event_id_def push_def
      dest!: get_emits post_emits
      split: if_splits prod.splits)

lemma upt_Suc_append:
  "a \<le> b \<Longrightarrow> b \<le> c \<Longrightarrow> [Suc a..<Suc b] @ [Suc b..<Suc c] = [Suc a..<Suc c]"
  by (metis Suc_le_mono le_Suc_ex upt_add_eq_append)

lemma step_emits:
  "eventIdCounter (scenario w) \<le> eventIdCounter (scenario (step f w ev)) \<and>
   emitted_event_ids (scenario (step f w ev)) =
     emitted_event_ids (scenario w)
       @ map event_id [Suc (eventIdCounter (scenario w))..<
                       Suc (eventIdCounter (scenario (step f w ev)))]"
proof (cases ev)
  case (Incoming now req)
  obtain s' res' ts where
    h: "handleRequest f now (scenario w) (length (responses w)) req new_response = (s', res', ts)"
    by (metis prod_cases3)
  from request_emits [OF h] show ?thesis
    using Incoming h by (simp add: step_def Let_def)
next
  case (TimerFires now k)
  show ?thesis
  proof (cases "k < length (timers w) \<and> snd (timers w ! k) < length (responses w)")
    case True
    obtain s' res' where
      h: "toolStreamTimeout now (scenario w) (responses w ! snd (timers w ! k)) = (s', res')"
      by (metis surj_pair)
    from timeout_emits [OF h] show ?thesis
      using TimerFires True h by (simp add: step_def Let_def)
  next
    case False
    then show ?thesis using TimerFires by (auto simp add: step_def)
  qed
qed

lemma run_emits:
  "eventIdCounter (scenario w) \<le> eventIdCounter (scenario (run_events f w evs)) \<and>
   emitted_event_ids (scenario (run_events f w evs)) =
     emitted_event_ids (scenario w)
       @ map event_id [Suc (eventIdCounter (scenario w))..<
                       Suc (eventIdCounter (scenario (run_events f w evs)))]"
proof (induction evs arbitrary: w)
  case Nil
  show ?case by (simp add: run_events_def)
next
  case (Cons ev evs)
  have r: "run_events f w (ev # evs) = run_events f (step f w ev) evs"
    by (simp add: run_events_def)
  let ?c0 = "eventIdCounter (scenario w)"
  let ?c1 = "eventIdCounter (scenario (step f w ev))"
  let ?c2 = "eventIdCounter (scenario (run_events f (step f w ev) evs))"
  from step_emits [of w f ev] have a1: "?c0 \<le> ?c1"
    and e1: "emitted_event_ids (scenario (step f w ev)) =
        emitted_event_ids (scenario w) @ map event_id [Suc ?c0..<Suc ?c1]"
    by blast+
  from Cons.IH [of "step f w ev"] have a2: "?c1 \<le> ?c2"
    and e2: "emitted_event_ids (scenario (run_events f (step f w ev) evs)) =
        emitted_event_ids (scenario (step f w ev)) @ map event_id [Suc ?c1..<Suc ?c2]"
    by blast+
  have "emitted_event_ids (scenario (run_events f (step f w ev) evs)) =
      emitted_event_ids (scenario w) @ map event_id ([Suc ?c0..<Suc ?c1] @ [Suc ?c1..<Suc ?c2])"
    unfolding e2 e1 by (simp only: map_append append_assoc)
  then have "emitted_event_ids (scenario (run_events f (step f w ev) evs)) =
      emitted_event_ids (scenario w) @ map event_id [Suc ?c0..<Suc ?c2]"
    by (simp only: upt_Suc_append [OF a1 a2])
  with a1 a2 show ?case
    unfolding r by (simp del: upt_Suc)
qed

text \<open>
  The same for the frames on the wire: the id of a priming frame and of a result frame
  is the event id it was built with, and what a request puts on the wire carries the ids
  from the old counter value to the new one.
\<close>

lemma split_lines_line:
  "CHR 0x0A \<notin> set a \<Longrightarrow> split_lines (a @ CHR 0x0A # b) = a # split_lines b"
  by (induction a) auto

lemma digit_char_no_newline: "d < 10 \<Longrightarrow> digit_char d \<noteq> CHR 0x0A"
proof -
  assume "d < 10"
  then have "d \<in> {0, 1, 2, 3, 4, 5, 6, 7, 8, 9}" by auto
  then show ?thesis
    by (auto simp: digit_char_def)
qed

lemma digits_no_newline: "CHR 0x0A \<notin> set (string_of_nat n)"
proof (induction n rule: string_of_nat.induct)
  case (1 n)
  show ?case
  proof (cases "n < 10")
    case True
    then show ?thesis
      using digit_char_no_newline [of n] by (subst string_of_nat.simps) auto
  next
    case False
    with 1 have "CHR 0x0A \<notin> set (string_of_nat (n div 10))" by simp
    moreover have "digit_char (n mod 10) \<noteq> CHR 0x0A"
      by (rule digit_char_no_newline) simp
    ultimately show ?thesis
      using False by (subst string_of_nat.simps) auto
  qed
qed

lemma event_id_no_newline: "CHR 0x0A \<notin> set (event_id n)"
  using digits_no_newline [of n] by (auto simp add: event_id_def)

lemma frame_id_priming: "frame_id (primingContent (event_id n) r) = [event_id n]"
proof -
  have a: "primingContent (event_id n) r =
      (''id: '' @ event_id n) @ CHR 0x0A # (''retry: '' @ string_of_nat r @ ''\<newline>data: \<newline>\<newline>'')"
    by (simp add: primingContent_def)
  have b: "CHR 0x0A \<notin> set (''id: '' @ event_id n)"
    using event_id_no_newline [of n] by auto
  show ?thesis
    unfolding frame_id_def a split_lines_line [OF b] by simp
qed

lemma frame_id_response: "frame_id (responseContent f (event_id n) body) = [event_id n]"
proof -
  have a: "responseContent f (event_id n) body =
      ''event: message'' @ CHR 0x0A #
        ((''id: '' @ event_id n) @ CHR 0x0A # (''data: '' @ f body @ ''\<newline>\<newline>''))"
    by (simp add: responseContent_def)
  have b: "CHR 0x0A \<notin> set (''id: '' @ event_id n)"
    using event_id_no_newline [of n] by auto
  have c: "CHR 0x0A \<notin> set ''event: message''" by simp
  show ?thesis
    unfolding frame_id_def a split_lines_line [OF c] split_lines_line [OF b] by simp
qed

lemma stream_frames_sent_on:
  "stream_frames (sent_on rid res frames) =
     (if map_of (resHeaders res) ''Content-Type'' = Some ''text/event-stream'' then frames else [])"
  by (simp add: stream_frames_def sent_on_def filter_map comp_def)

lemma stream_frames_append:
  "stream_frames (a @ b) = stream_frames a @ stream_frames b"
  by (simp add: stream_frames_def)


lemma get_wire:
  "handleGetSSEStream f s rid new_response = (s', res') \<Longrightarrow>
   eventIdCounter s \<le> eventIdCounter s' \<and>
   concat (map frame_id (stream_frames (sent_on rid' res' (written res')))) =
     map event_id [Suc (eventIdCounter s)..<Suc (eventIdCounter s')]"
  by (auto simp add: handleGetSSEStream_def Let_def push_def writeHead_def res_write_def
      new_response_def stream_frames_sent_on sse_headers_def frame_id_priming frame_id_response
      split: if_splits)

lemma toolscall_wire:
  "handleToolsCall s new_response rq = (s', res', ts) \<Longrightarrow>
   eventIdCounter s \<le> eventIdCounter s' \<and>
   concat (map frame_id (stream_frames (sent_on rid' res' (written res')))) =
     map event_id [Suc (eventIdCounter s)..<Suc (eventIdCounter s')]"
  by (auto simp add: handleToolsCall_def Let_def push_def writeHead_def res_write_def
      new_response_def stream_frames_sent_on sse_headers_def frame_id_priming)

lemma post_cases:
  "handlePostRequest f s req new_response = (s', res', ts) \<Longrightarrow>
   (\<exists>s0 rq. eventIdCounter s0 = eventIdCounter s \<and>
      handleToolsCall s0 new_response rq = (s', res', ts))
   \<or> (eventIdCounter s' = eventIdCounter s \<and>
      map_of (resHeaders res') ''Content-Type'' \<noteq> Some ''text/event-stream'')"
proof -
  assume h: "handlePostRequest f s req new_response = (s', res', ts)"
  show ?thesis
  proof (cases "\<exists>request rq. parsedBody req = Inr request \<and> \<not> template_throws (JStr ''tools/call'')
      \<and> get_prop request ''method'' = Inr (JStr ''tools/call'') \<and> get_prop request ''id'' = Inr rq")
    case True
    then obtain request rq where r: "parsedBody req = Inr request"
      "get_prop request ''method'' = Inr (JStr ''tools/call'')" "get_prop request ''id'' = Inr rq"
      by blast
    let ?s0 = "push \<lparr> check_id = ''incoming-request'', name = ''IncomingRequest'',
                 status = INFO, errorMessage = None,
                 details = [(''method'', JStr ''POST''), (''url'', JStr (reqUrl req)),
                            (''jsonrpcMethod'', JStr ''tools/call''), (''jsonrpcId'', rq)] \<rparr> s"
    from h r have "handleToolsCall ?s0 new_response rq = (s', res', ts)"
      by (simp add: handlePostRequest_def Let_def)
    moreover have "eventIdCounter ?s0 = eventIdCounter s"
      by (simp add: push_def)
    ultimately show ?thesis by blast
  next
    case False
    with h have "eventIdCounter s' = eventIdCounter s \<and>
      map_of (resHeaders res') ''Content-Type'' \<noteq> Some ''text/event-stream''"
      unfolding handlePostRequest_def Let_def
      by (auto simp add: handleInitialize_def handleToolsList_def parseErrorResponse_def
          push_def Let_def writeHead_def res_end_def new_response_def json_headers_def
          split: sum.splits if_splits prod.splits)
    then show ?thesis by blast
  qed
qed

lemma post_wire:
  "handlePostRequest f s req new_response = (s', res', ts) \<Longrightarrow>
   eventIdCounter s \<le> eventIdCounter s' \<and>
   concat (map frame_id (stream_frames (sent_on rid' res' (written res')))) =
     map event_id [Suc (eventIdCounter s)..<Suc (eventIdCounter s')]"
proof -
  assume h: "handlePostRequest f s req new_response = (s', res', ts)"
  from post_cases [OF h] show ?thesis
  proof (elim disjE exE conjE)
    fix s0 rq
    assume e: "eventIdCounter s0 = eventIdCounter s"
      and t: "handleToolsCall s0 new_response rq = (s', res', ts)"
    from toolscall_wire [OF t, where rid' = rid'] show ?thesis
      unfolding e .
  next
    assume "eventIdCounter s' = eventIdCounter s"
      and "map_of (resHeaders res') ''Content-Type'' \<noteq> Some ''text/event-stream''"
    then show ?thesis
      by (simp add: stream_frames_sent_on)
  qed
qed

lemma request_wire:
  "handleRequest f now s rid req new_response = (s', res', ts) \<Longrightarrow>
   eventIdCounter s \<le> eventIdCounter s' \<and>
   concat (map frame_id (stream_frames (sent_on rid' res' (written res')))) =
     map event_id [Suc (eventIdCounter s)..<Suc (eventIdCounter s')]"
proof -
  assume h: "handleRequest f now s rid req new_response = (s', res', ts)"
  show ?thesis
  proof (cases "reqMethod req = ''GET''")
    case True
    from h show ?thesis
      unfolding handleRequest_def Let_def
      using True
      by (auto simp add: push_def split: prod.splits if_splits
          dest!: get_wire [where rid' = rid'])
  next
    case False
    show ?thesis
    proof (cases "reqMethod req = ''POST''")
      case True
      with h False have "handlePostRequest f s req new_response = (s', res', ts)"
        by (simp add: handleRequest_def)
      from post_wire [OF this] show ?thesis .
    next
      case False
      with h \<open>reqMethod req \<noteq> ''GET''\<close> show ?thesis
        by (auto simp add: handleRequest_def writeHead_def res_end_def new_response_def
            stream_frames_sent_on)
    qed
  qed
qed

lemma step_wire:
  "eventIdCounter (scenario w) \<le> eventIdCounter (scenario (step f w ev)) \<and>
   wire_event_ids (step f w ev) =
     wire_event_ids w
       @ map event_id [Suc (eventIdCounter (scenario w))..<
                       Suc (eventIdCounter (scenario (step f w ev)))]"
proof (cases ev)
  case (Incoming now req)
  obtain s' res' ts where
    h: "handleRequest f now (scenario w) (length (responses w)) req new_response = (s', res', ts)"
    by (metis prod_cases3)
  from request_wire [OF h, where rid' = "length (responses w)"] show ?thesis
    using Incoming h
    by (simp add: step_def Let_def wire_event_ids_def stream_frames_append del: upt_Suc)
next
  case (TimerFires now k)
  show ?thesis
  proof (cases "k < length (timers w) \<and> snd (timers w ! k) < length (responses w)")
    case True
    then show ?thesis
      using TimerFires
      by (simp add: step_def Let_def toolStreamTimeout_def push_def res_end_def
          wire_event_ids_def sent_on_def)
  next
    case False
    then show ?thesis using TimerFires by (auto simp add: step_def)
  qed
qed

lemma run_wire:
  "eventIdCounter (scenario w) \<le> eventIdCounter (scenario (run_events f w evs)) \<and>
   wire_event_ids (run_events f w evs) =
     wire_event_ids w
       @ map event_id [Suc (eventIdCounter (scenario w))..<
                       Suc (eventIdCounter (scenario (run_events f w evs)))]"
proof (induction evs arbitrary: w)
  case Nil
  show ?case by (simp add: run_events_def)
next
  case (Cons ev evs)
  have r: "run_events f w (ev # evs) = run_events f (step f w ev) evs"
    by (simp add: run_events_def)
  let ?c0 = "eventIdCounter (scenario w)"
  let ?c1 = "eventIdCounter (scenario (step f w ev))"
  let ?c2 = "eventIdCounter (scenario (run_events f (step f w ev) evs))"
  from step_wire [of w f ev] have a1: "?c0 \<le> ?c1"
    and e1: "wire_event_ids (step f w ev) =
        wire_event_ids w @ map event_id [Suc ?c0..<Suc ?c1]"
    by blast+
  from Cons.IH [of "step f w ev"] have a2: "?c1 \<le> ?c2"
    and e2: "wire_event_ids (run_events f (step f w ev) evs) =
        wire_event_ids (step f w ev) @ map event_id [Suc ?c1..<Suc ?c2]"
    by blast+
  have "wire_event_ids (run_events f (step f w ev) evs) =
      wire_event_ids w @ map event_id ([Suc ?c0..<Suc ?c1] @ [Suc ?c1..<Suc ?c2])"
    unfolding e2 e1 by (simp only: map_append append_assoc)
  then have "wire_event_ids (run_events f (step f w ev) evs) =
      wire_event_ids w @ map event_id [Suc ?c0..<Suc ?c2]"
    by (simp only: upt_Suc_append [OF a1 a2])
  with a1 a2 show ?case
    unfolding r by (simp del: upt_Suc)
qed

lemma wire_ids_example:
  "wire_event_ids
     (run_events sample_stringify (new_world 0)
        [Incoming 0 tools_call_7, TimerFires 50 0, Incoming 600 bare_get, Incoming 700 bare_get])
   = [''event-1'', ''event-2'', ''event-3'', ''event-4'']"
  by code_simp

text \<open>
  C3. Over any sequence of requests and timer firings, started in any state, the event
  ids of the frames put on the wire during the sequence are exactly \<open>event-(c+1)\<close>, ...,
  \<open>event-c'\<close>, in this order, where \<open>c\<close> and \<open>c'\<close> are the values of \<open>eventIdCounter\<close> before
  and after. Their numeric parts are strictly increasing and they are pairwise distinct,
  and they are the ids logged for the emitted events. For a fresh scenario this covers
  every id ever put on the wire.
\<close>

theorem event_ids_strictly_increasing:
  "(let s = scenario w;
        w' = run_events f w evs;
        s' = scenario w';
        minted = drop (length (wire_event_ids w)) (wire_event_ids w')
    in wire_event_ids w' = wire_event_ids w @ minted
       \<and> minted = map (\<lambda>n. ''event-'' @ string_of_nat n)
                    [Suc (eventIdCounter s)..<Suc (eventIdCounter s')]
       \<and> minted = drop (length (emitted_event_ids s)) (emitted_event_ids s')
       \<and> sorted_wrt (<) (map event_num minted)
       \<and> distinct minted)
   \<and> (let w' = run_events f (new_world date_now) evs;
          ids = wire_event_ids w'
      in ids = map (\<lambda>n. ''event-'' @ string_of_nat n)
                 [Suc 0..<Suc (eventIdCounter (scenario w'))]
         \<and> ids = emitted_event_ids (scenario w')
         \<and> sorted_wrt (<) (map event_num ids)
         \<and> distinct ids)"
proof -
  have lit: "\<And>a b. map event_id [a..<b] = map (\<lambda>n. ''event-'' @ string_of_nat n) [a..<b]"
    by (simp add: event_id_def del: upt_Suc)
  have part: "\<And>v. wire_event_ids (run_events f v evs) = wire_event_ids v
        @ drop (length (wire_event_ids v)) (wire_event_ids (run_events f v evs))
      \<and> drop (length (wire_event_ids v)) (wire_event_ids (run_events f v evs))
        = map (\<lambda>n. ''event-'' @ string_of_nat n)
            [Suc (eventIdCounter (scenario v))..<
             Suc (eventIdCounter (scenario (run_events f v evs)))]
      \<and> drop (length (wire_event_ids v)) (wire_event_ids (run_events f v evs))
        = drop (length (emitted_event_ids (scenario v)))
            (emitted_event_ids (scenario (run_events f v evs)))
      \<and> sorted_wrt (<) (map event_num
          (drop (length (wire_event_ids v)) (wire_event_ids (run_events f v evs))))
      \<and> distinct (drop (length (wire_event_ids v)) (wire_event_ids (run_events f v evs)))"
  proof -
    fix v
    let ?ids = "map event_id [Suc (eventIdCounter (scenario v))..<
        Suc (eventIdCounter (scenario (run_events f v evs)))]"
    from run_wire [of v f evs]
    have w: "wire_event_ids (run_events f v evs) = wire_event_ids v @ ?ids" by blast
    from run_emits [of v f evs]
    have e: "emitted_event_ids (scenario (run_events f v evs))
        = emitted_event_ids (scenario v) @ ?ids" by blast
    have m1: "drop (length (wire_event_ids v)) (wire_event_ids (run_events f v evs)) = ?ids"
      unfolding w by simp
    have m2: "drop (length (emitted_event_ids (scenario v)))
        (emitted_event_ids (scenario (run_events f v evs))) = ?ids"
      unfolding e by simp
    from minted_range [of "Suc (eventIdCounter (scenario v))"
        "Suc (eventIdCounter (scenario (run_events f v evs)))"]
    have so: "sorted_wrt (<) (map event_num ?ids)" and di: "distinct ?ids"
      by simp_all
    show "wire_event_ids (run_events f v evs) = wire_event_ids v
        @ drop (length (wire_event_ids v)) (wire_event_ids (run_events f v evs))
      \<and> drop (length (wire_event_ids v)) (wire_event_ids (run_events f v evs))
        = map (\<lambda>n. ''event-'' @ string_of_nat n)
            [Suc (eventIdCounter (scenario v))..<
             Suc (eventIdCounter (scenario (run_events f v evs)))]
      \<and> drop (length (wire_event_ids v)) (wire_event_ids (run_events f v evs))
        = drop (length (emitted_event_ids (scenario v)))
            (emitted_event_ids (scenario (run_events f v evs)))
      \<and> sorted_wrt (<) (map event_num
          (drop (length (wire_event_ids v)) (wire_event_ids (run_events f v evs))))
      \<and> distinct (drop (length (wire_event_ids v)) (wire_event_ids (run_events f v evs)))"
      unfolding m1 m2 by (intro conjI) (rule w, rule lit, rule refl, rule so, rule di)
  qed
  have fresh: "emitted_event_ids (scenario (new_world date_now)) = []"
    "wire_event_ids (new_world date_now) = []"
    "eventIdCounter (scenario (new_world date_now)) = 0"
    by (simp_all add: new_world_def new_SSERetryScenario_def emitted_event_ids_def
        wire_event_ids_def stream_frames_def)
  have B: "wire_event_ids (run_events f (new_world date_now) evs)
        = map (\<lambda>n. ''event-'' @ string_of_nat n)
            [Suc 0..<Suc (eventIdCounter (scenario (run_events f (new_world date_now) evs)))]
      \<and> wire_event_ids (run_events f (new_world date_now) evs)
        = emitted_event_ids (scenario (run_events f (new_world date_now) evs))
      \<and> sorted_wrt (<) (map event_num (wire_event_ids (run_events f (new_world date_now) evs)))
      \<and> distinct (wire_event_ids (run_events f (new_world date_now) evs))"
  proof -
    have d0: "\<And>xs. drop (length (wire_event_ids (new_world date_now))) xs = xs"
      and d1: "\<And>xs. drop (length (emitted_event_ids (scenario (new_world date_now)))) xs = xs"
      by (simp_all add: fresh)
    from part [of "new_world date_now"] show ?thesis
      unfolding d0 d1 fresh(3) by blast
  qed
  from part [of w] B show ?thesis
    unfolding Let_def by blast
qed

subsection \<open>C4: which requests are answered 405\<close>

text \<open>
  C4, as stated, fails: a GET that carries no \<open>mcp-session-id\<close> header, sent to a path
  the protocol does not define, is answered 200.
\<close>

theorem get_without_session_counterexample:
  "map_of (reqHeaders bare_get) ''mcp-session-id'' = None
   \<and> reqUrl bare_get = ''/unsupported''
   \<and> statusCode (fst (snd (handleRequest sample_stringify 0 (new_SSERetryScenario 0) 0
         bare_get new_response))) = Some 200"
  by (simp add: bare_get_def handleRequest_def handleGetSSEStream_def Let_def push_def
      writeHead_def res_write_def new_response_def new_SSERetryScenario_def)

lemma post_status:
  "handlePostRequest f s req new_response = (s', res', ts) \<Longrightarrow>
   statusCode res' \<in> {Some 200, Some 202, Some 400}"
  unfolding handlePostRequest_def Let_def
  by (auto simp add: handleInitialize_def handleToolsList_def handleToolsCall_def
      parseErrorResponse_def push_def Let_def writeHead_def res_write_def res_end_def
      new_response_def
      split: sum.splits if_splits prod.splits)

text \<open>
  C4, amended. The harness answers 405 (body \<open>Method Not Allowed\<close>, state untouched) to
  every request whose method is neither GET nor POST. Every GET is answered 200
  \<open>text/event-stream\<close>, whatever its headers and path, and every POST 200, 202 or 400;
  neither the session id nor the path is inspected.
\<close>

theorem method_not_allowed:
  "(case handleRequest f now s rid req new_response of
      (s', res', ts) \<Rightarrow>
        (reqMethod req \<noteq> ''GET'' \<and> reqMethod req \<noteq> ''POST'' \<longrightarrow>
           statusCode res' = Some 405 \<and> written res' = [''Method Not Allowed'']
           \<and> ended res' \<and> s' = s \<and> ts = [])
        \<and> (reqMethod req = ''GET'' \<longrightarrow>
           statusCode res' = Some 200
           \<and> map_of (resHeaders res') ''Content-Type'' = Some ''text/event-stream'')
        \<and> (reqMethod req = ''POST'' \<longrightarrow> statusCode res' \<in> {Some 200, Some 202, Some 400}))"
proof -
  obtain s' res' ts where h: "handleRequest f now s rid req new_response = (s', res', ts)"
    by (metis prod_cases3)
  have 1: "reqMethod req \<noteq> ''GET'' \<and> reqMethod req \<noteq> ''POST'' \<longrightarrow>
           statusCode res' = Some 405 \<and> written res' = [''Method Not Allowed'']
           \<and> ended res' \<and> s' = s \<and> ts = []"
    using h by (auto simp add: handleRequest_def writeHead_def res_end_def new_response_def)
  have 2: "reqMethod req = ''GET'' \<longrightarrow>
           statusCode res' = Some 200
           \<and> map_of (resHeaders res') ''Content-Type'' = Some ''text/event-stream''"
  proof
    assume g: "reqMethod req = ''GET''"
    from h show "statusCode res' = Some 200
           \<and> map_of (resHeaders res') ''Content-Type'' = Some ''text/event-stream''"
      unfolding request_get_pending [OF g]
      by (auto split: prod.splits dest!: get_headers)
  qed
  have 3: "reqMethod req = ''POST'' \<longrightarrow> statusCode res' \<in> {Some 200, Some 202, Some 400}"
    using h post_status [of f s req s' res' ts] by (auto simp add: handleRequest_def)
  from 1 2 3 show ?thesis by (simp add: h)
qed

theorem method_not_allowed_witness:
  "reqMethod delete_request \<noteq> ''GET'' \<and> reqMethod delete_request \<noteq> ''POST''
   \<and> statusCode (fst (snd (handleRequest sample_stringify 0 (new_SSERetryScenario 0) 0
         delete_request new_response))) = Some 405
   \<and> reqMethod bare_get = ''GET''
   \<and> statusCode (fst (snd (handleRequest sample_stringify 0 (new_SSERetryScenario 0) 0
         bare_get new_response))) = Some 200
   \<and> reqMethod initialized_notification = ''POST''
   \<and> statusCode (fst (snd (handleRequest sample_stringify 0 (new_SSERetryScenario 0) 0
         initialized_notification new_response))) \<in> {Some 200, Some 202, Some 400}"
proof -
  have m: "reqMethod delete_request \<noteq> ''GET'' \<and> reqMethod delete_request \<noteq> ''POST''"
    "reqMethod bare_get = ''GET''" "reqMethod initialized_notification = ''POST''"
    by (simp_all add: delete_request_def bare_get_def initialized_notification_def)
  from m method_not_allowed [where f = sample_stringify and now = 0
      and s = "new_SSERetryScenario 0" and rid = 0 and req = delete_request]
    method_not_allowed [where f = sample_stringify and now = 0
      and s = "new_SSERetryScenario 0" and rid = 0 and req = bare_get]
    method_not_allowed [where f = sample_stringify and now = 0
      and s = "new_SSERetryScenario 0" and rid = 0 and req = initialized_notification]
  show ?thesis
    by (simp add: case_prod_beta)
qed

subsection \<open>C5: notifications\<close>

text \<open>
  C5, as stated, fails: a POST \<open>tools/list\<close> without an \<open>id\<close> is dispatched by its method
  and answered 200 with a JSON body.
\<close>

theorem idless_tools_list_counterexample:
  "get_prop (JObj [(''jsonrpc'', JStr ''2.0''), (''method'', JStr ''tools/list'')]) ''id''
     = Inr JUndefined
   \<and> parsedBody idless_tools_list
     = Inr (JObj [(''jsonrpc'', JStr ''2.0''), (''method'', JStr ''tools/list'')])
   \<and> statusCode (fst (snd (handleRequest sample_stringify 0 (new_SSERetryScenario 0) 0
         idless_tools_list new_response))) = Some 200
   \<and> length (written (fst (snd (handleRequest sample_stringify 0 (new_SSERetryScenario 0) 0
         idless_tools_list new_response)))) = 1"
  by (simp add: idless_tools_list_def handleRequest_def handlePostRequest_def
      handleToolsList_def Let_def push_def writeHead_def res_end_def new_response_def)

text \<open>
  C5, amended. A POST whose parsed body has no \<open>id\<close> and whose method is none of
  \<open>initialize\<close>, \<open>tools/list\<close>, \<open>tools/call\<close> is answered 202 with an empty body; with one
  of these three methods it is dispatched by method and answered 200 with a body. (The
  method is any value that the log line can render, as every string is.)
\<close>

theorem notification_accepted:
  "reqMethod req = ''POST'' \<Longrightarrow> parsedBody req = Inr request \<Longrightarrow>
   get_prop request ''id'' = Inr JUndefined \<Longrightarrow>
   get_prop request ''method'' = Inr m \<Longrightarrow> \<not> template_throws m \<Longrightarrow>
   (case handleRequest f now s rid req new_response of
      (s', res', ts) \<Rightarrow>
        (m \<noteq> JStr ''initialize'' \<and> m \<noteq> JStr ''tools/list'' \<and> m \<noteq> JStr ''tools/call'' \<longrightarrow>
           statusCode res' = Some 202 \<and> written res' = [] \<and> ended res' \<and> ts = [])
        \<and> (m = JStr ''initialize'' \<or> m = JStr ''tools/list'' \<or> m = JStr ''tools/call'' \<longrightarrow>
           statusCode res' = Some 200 \<and> written res' \<noteq> []))"
  by (auto simp add: handleRequest_def handlePostRequest_def handleInitialize_def
      handleToolsList_def handleToolsCall_def Let_def push_def writeHead_def res_end_def
      res_write_def new_response_def)

theorem notification_accepted_witness:
  "reqMethod initialized_notification = ''POST''
   \<and> (case parsedBody initialized_notification of
         Inr request \<Rightarrow>
           get_prop request ''id'' = Inr JUndefined
           \<and> get_prop request ''method'' = Inr (JStr ''notifications/initialized'')
       | Inl e \<Rightarrow> False)
   \<and> \<not> template_throws (JStr ''notifications/initialized'')
   \<and> statusCode (fst (snd (handleRequest sample_stringify 0 (new_SSERetryScenario 0) 0
         initialized_notification new_response))) = Some 202
   \<and> written (fst (snd (handleRequest sample_stringify 0 (new_SSERetryScenario 0) 0
         initialized_notification new_response))) = []"
proof -
  have a: "reqMethod initialized_notification = ''POST''"
    and b: "parsedBody initialized_notification =
      Inr (JObj [(''jsonrpc'', JStr ''2.0''), (''method'', JStr ''notifications/initialized'')])"
    by (simp_all add: initialized_notification_def)
  have c: "get_prop (JObj [(''jsonrpc'', JStr ''2.0''),
        (''method'', JStr ''notifications/initialized'')]) ''id'' = Inr JUndefined"
    and d: "get_prop (JObj [(''jsonrpc'', JStr ''2.0''),
        (''method'', JStr ''notifications/initialized'')]) ''method''
        = Inr (JStr ''notifications/initialized'')"
    and e: "\<not> template_throws (JStr ''notifications/initialized'')"
    by simp_all
  from notification_accepted [OF a b c d e, where f = sample_stringify and now = 0
      and s = "new_SSERetryScenario 0" and rid = 0]
  show ?thesis
    using a b c d e by (simp add: case_prod_beta)
qed

subsection \<open>C6: tools/call opens a stream and defers the result\<close>

lemma priming_500:
  "primingContent (event_id n) 500 =
     ''id: event-'' @ string_of_nat n @ ''\<newline>retry: 500\<newline>data: \<newline>\<newline>''"
  by (simp add: primingContent_def event_id_def string_of_nat_500)

text \<open>
  C6. A POST \<open>tools/call\<close> is answered 200 with \<open>Content-Type: text/event-stream\<close>; the
  handler writes exactly one priming event with the next event id and \<open>retry: 500\<close>,
  stores \<open>request.id\<close> in \<open>pendingToolCallId\<close>, leaves the stream open and registers one
  timer of 50 ms. When that timer fires at instant \<open>t\<close> the stream is ended with nothing
  more written, and \<open>toolStreamCloseTime\<close> becomes \<open>t\<close>.
\<close>

theorem tools_call_defers_result:
  "reqMethod req = ''POST'' \<Longrightarrow> parsedBody req = Inr (JObj kvs) \<Longrightarrow>
   map_of kvs ''method'' = Some (JStr ''tools/call'') \<Longrightarrow> retryValue s = 500 \<Longrightarrow>
   (case handleRequest f now s rid req new_response of
      (s', res', ts) \<Rightarrow>
        statusCode res' = Some 200
        \<and> map_of (resHeaders res') ''Content-Type'' = Some ''text/event-stream''
        \<and> written res' =
            [''id: event-'' @ string_of_nat (eventIdCounter s + 1)
               @ ''\<newline>retry: 500\<newline>data: \<newline>\<newline>'']
        \<and> \<not> ended res'
        \<and> eventIdCounter s' = eventIdCounter s + 1
        \<and> pendingToolCallId s' = (case map_of kvs ''id'' of None \<Rightarrow> JUndefined | Some v \<Rightarrow> v)
        \<and> toolStreamCloseTime s' = toolStreamCloseTime s
        \<and> ts = [50]
        \<and> (case toolStreamTimeout t s' res' of
              (s'', res'') \<Rightarrow>
                ended res'' \<and> written res'' = written res'
                \<and> toolStreamCloseTime s'' = Some t
                \<and> pendingToolCallId s'' = pendingToolCallId s'))"
  by (simp add: handleRequest_def handlePostRequest_def handleToolsCall_def Let_def push_def
      writeHead_def res_end_def res_write_def new_response_def sse_headers_def
      toolStreamTimeout_def priming_500)

theorem tools_call_defers_result_witness:
  "reqMethod tools_call_7 = ''POST''
   \<and> (case parsedBody tools_call_7 of
         Inr (JObj kvs) \<Rightarrow> map_of kvs ''method'' = Some (JStr ''tools/call'')
       | _ \<Rightarrow> False)
   \<and> retryValue (new_SSERetryScenario 0) = 500
   \<and> (case handleRequest sample_stringify 0 (new_SSERetryScenario 0) 0 tools_call_7 new_response of
        (s', res', ts) \<Rightarrow>
          statusCode res' = Some 200
          \<and> written res' = [''id: event-1\<newline>retry: 500\<newline>data: \<newline>\<newline>'']
          \<and> pendingToolCallId s' = JNum 7
          \<and> ts = [50]
          \<and> toolStreamCloseTime (fst (toolStreamTimeout 50 s' res')) = Some 50
          \<and> ended (snd (toolStreamTimeout 50 s' res')))"
proof -
  have a: "reqMethod tools_call_7 = ''POST''"
    and b: "parsedBody tools_call_7 =
      Inr (JObj [(''jsonrpc'', JStr ''2.0''), (''id'', JNum 7),
                 (''method'', JStr ''tools/call''),
                 (''params'', JObj [(''name'', JStr ''test_reconnection''),
                                    (''arguments'', JObj [])])])"
    by (simp_all add: tools_call_7_def)
  have c: "map_of [(''jsonrpc'', JStr ''2.0''), (''id'', JNum 7),
                 (''method'', JStr ''tools/call''),
                 (''params'', JObj [(''name'', JStr ''test_reconnection''),
                                    (''arguments'', JObj [])])] ''method''
           = Some (JStr ''tools/call'')"
    by simp
  have d: "retryValue (new_SSERetryScenario 0) = 500"
    and e: "eventIdCounter (new_SSERetryScenario 0) = 0"
    by (simp_all add: new_SSERetryScenario_def)
  have n: "string_of_nat (Suc 0) = ''1''"
    by (simp add: string_of_nat.simps digit_char_def)
  from tools_call_defers_result [OF a b c d, where f = sample_stringify and now = 0
      and rid = 0 and t = 50]
  show ?thesis
    using a b d by (simp add: case_prod_beta e n)
qed

subsection \<open>What a run of requests leaves in the state\<close>

text \<open>
  Over any sequence of events \<open>retryValue\<close> keeps its value (500 from a fresh scenario),
  \<open>lastEventIds\<close> grows by the non-empty Last-Event-ID headers of the GETs, in order, and
  \<open>getConnectionCount\<close> counts the GETs.
\<close>

lemma get_observables:
  "handleGetSSEStream f s rid res = (s', res') \<Longrightarrow>
   retryValue s' = retryValue s \<and> lastEventIds s' = lastEventIds s
   \<and> getConnectionCount s' = getConnectionCount s"
  by (auto simp add: handleGetSSEStream_def Let_def push_def split: if_splits)

lemma post_observables:
  "handlePostRequest f s req res = (s', res', ts) \<Longrightarrow>
   retryValue s' = retryValue s \<and> lastEventIds s' = lastEventIds s
   \<and> getConnectionCount s' = getConnectionCount s"
  unfolding handlePostRequest_def Let_def
  by (auto simp add: handleInitialize_def handleToolsList_def handleToolsCall_def push_def Let_def
      split: sum.splits if_splits prod.splits)

lemma step_observables:
  "retryValue (scenario (step f w ev)) = retryValue (scenario w)
   \<and> lastEventIds (scenario (step f w ev)) = lastEventIds (scenario w) @ announced_last_event_id ev
   \<and> getConnectionCount (scenario (step f w ev)) =
       getConnectionCount (scenario w) + (if is_get ev then 1 else 0)"
proof (cases ev)
  case (Incoming now req)
  show ?thesis
  proof (cases "reqMethod req = ''GET''")
    case True
    then show ?thesis
      using Incoming
      by (auto simp add: step_def request_get_pending Let_def push_def
          split: prod.splits dest!: get_observables)
  next
    case False
    then show ?thesis
      using Incoming
      by (auto simp add: step_def handleRequest_def Let_def
          split: prod.splits dest!: post_observables)
  qed
next
  case (TimerFires now k)
  then show ?thesis
    by (simp add: step_def Let_def toolStreamTimeout_def push_def)
qed

lemma run_observables:
  "retryValue (scenario (run_events f w evs)) = retryValue (scenario w)
   \<and> lastEventIds (scenario (run_events f w evs)) =
       lastEventIds (scenario w) @ concat (map announced_last_event_id evs)
   \<and> getConnectionCount (scenario (run_events f w evs)) =
       getConnectionCount (scenario w) + length (filter is_get evs)"
proof (induction evs arbitrary: w)
  case Nil
  show ?case by (simp add: run_events_def)
next
  case (Cons ev evs)
  have "run_events f w (ev # evs) = run_events f (step f w ev) evs"
    by (simp add: run_events_def)
  with Cons [of "step f w ev"] step_observables [of f w ev] show ?case
    by simp
qed

lemma fresh_run_observables:
  "retryValue (scenario (run_events f (new_world date_now) evs)) = 500
   \<and> lastEventIds (scenario (run_events f (new_world date_now) evs)) =
       concat (map announced_last_event_id evs)
   \<and> getConnectionCount (scenario (run_events f (new_world date_now) evs)) =
       length (filter is_get evs)"
  using run_observables [of f "new_world date_now" evs]
  by (simp add: new_world_def new_SSERetryScenario_def)

subsection \<open>C7: the verdicts of getChecks\<close>

lemma check_names:
  "name (noReconnectCheck s) = ''ClientGracefulReconnect''"
  "status (noReconnectCheck s) = FAILURE"
  "name (reconnectCheck s) = ''ClientGracefulReconnect''"
  "status (reconnectCheck s) = SUCCESS"
  "name (retryTimingCheck s d) = ''ClientRespectsRetryField''"
  "name (retryTimingUnmeasured s) = ''ClientRespectsRetryField''"
  "name (lastEventIdCheck s) = ''ClientSendsLastEventId''"
  by (simp_all add: noReconnectCheck_def reconnectCheck_def retryTimingCheck_def
      retryTimingUnmeasured_def lastEventIdCheck_def Let_def)

lemma lastEventIdCheck_status:
  "status (lastEventIdCheck s) =
     (if lastEventIds s = [] \<or> hd (lastEventIds s) = None then WARNING else SUCCESS)"
  by (cases "lastEventIds s") (simp_all add: lastEventIdCheck_def Let_def)

lemma generateChecks_some:
  "1 \<le> getConnectionCount s \<Longrightarrow>
   \<exists>t. checks (generateChecks sub s) = checks s @ [reconnectCheck s, t, lastEventIdCheck s]
       \<and> name t = ''ClientRespectsRetryField''"
proof (cases "toolStreamCloseTime s = None \<or> getReconnectionTime s = None")
  case True
  assume "1 \<le> getConnectionCount s"
  from generateChecks_unmeasured [OF this True] show ?thesis
    by (simp add: check_names)
next
  case False
  assume c: "1 \<le> getConnectionCount s"
  from False obtain c0 r where "toolStreamCloseTime s = Some c0" "getReconnectionTime s = Some r"
    by auto
  from generateChecks_reconnected [OF c this] show ?thesis
    by (simp add: check_names)
qed

text \<open>
  C7, as stated, fails: on a scenario that saw no GET, \<open>getChecks\<close> returns the single
  check \<open>ClientGracefulReconnect\<close>; \<open>generateChecks\<close> returns right after pushing it, so
  neither the timing check nor the Last-Event-ID check is emitted.
\<close>

theorem getChecks_no_reconnection_counterexample:
  "getConnectionCount (new_SSERetryScenario 0) = 0
   \<and> map name (fst (getChecks exact_sub (new_SSERetryScenario 0))) = [''ClientGracefulReconnect'']
   \<and> ''ClientRespectsRetryField'' \<notin> set (map name (fst (getChecks exact_sub (new_SSERetryScenario 0))))
   \<and> ''ClientSendsLastEventId'' \<notin> set (map name (fst (getChecks exact_sub (new_SSERetryScenario 0))))"
  by (simp add: getChecks_def generateChecks_none new_SSERetryScenario_def noReconnectCheck_def)

text \<open>
  C7, amended. \<open>getChecks\<close> always emits the reconnection check. When no GET was
  observed it is FAILURE and it is the only verdict. When at least one GET was observed
  it is SUCCESS and is followed by the \<open>ClientRespectsRetryField\<close> check and the
  \<open>ClientSendsLastEventId\<close> check, which is WARNING when no Last-Event-ID was recorded
  and SUCCESS when the first recorded one is present.
\<close>

theorem getChecks_verdicts:
  "(getConnectionCount s < 1 \<longrightarrow>
      fst (getChecks sub s) = checks s @ [noReconnectCheck s]
      \<and> name (noReconnectCheck s) = ''ClientGracefulReconnect''
      \<and> status (noReconnectCheck s) = FAILURE)
   \<and> (1 \<le> getConnectionCount s \<longrightarrow>
      (\<exists>t. fst (getChecks sub s) = checks s @ [reconnectCheck s, t, lastEventIdCheck s]
           \<and> name t = ''ClientRespectsRetryField'')
      \<and> name (reconnectCheck s) = ''ClientGracefulReconnect''
      \<and> status (reconnectCheck s) = SUCCESS
      \<and> name (lastEventIdCheck s) = ''ClientSendsLastEventId''
      \<and> status (lastEventIdCheck s) =
          (if lastEventIds s = [] \<or> hd (lastEventIds s) = None then WARNING else SUCCESS))"
  using generateChecks_some [where s = s and sub = sub]
  by (simp add: getChecks_def Let_def generateChecks_none check_names lastEventIdCheck_status)

theorem getChecks_verdicts_witness:
  "getConnectionCount (new_SSERetryScenario 0) < 1
   \<and> map status (fst (getChecks exact_sub (new_SSERetryScenario 0))) = [FAILURE]
   \<and> 1 \<le> getConnectionCount probe_state
   \<and> map name (fst (getChecks exact_sub probe_state)) =
       [''ClientGracefulReconnect'', ''ClientRespectsRetryField'', ''ClientSendsLastEventId'']
   \<and> status (lastEventIdCheck probe_state) = SUCCESS"
proof -
  have a: "getConnectionCount (new_SSERetryScenario 0) < 1"
    by (simp add: new_SSERetryScenario_def)
  have b: "1 \<le> getConnectionCount probe_state"
    by (simp add: probe_state_def)
  have e: "checks (new_SSERetryScenario 0) = []" "checks probe_state = []"
    "lastEventIds probe_state = [Some ''event-1'']"
    by (simp_all add: probe_state_def new_SSERetryScenario_def)
  from getChecks_verdicts [where s = "new_SSERetryScenario 0" and sub = exact_sub] a
  have 1: "map status (fst (getChecks exact_sub (new_SSERetryScenario 0))) = [FAILURE]"
    by (simp add: e)
  from getChecks_verdicts [where s = probe_state and sub = exact_sub] b
  have 2: "map name (fst (getChecks exact_sub probe_state)) =
       [''ClientGracefulReconnect'', ''ClientRespectsRetryField'', ''ClientSendsLastEventId'']"
    by (auto simp add: e)
  from getChecks_verdicts [where s = probe_state and sub = exact_sub] b
  have 3: "status (lastEventIdCheck probe_state) = SUCCESS"
    by (simp add: e)
  from a b 1 2 3 show ?thesis by simp
qed

subsection \<open>C10: getChecks is not idempotent\<close>

text \<open>
  C10, as stated, fails for a scenario that saw no GET: two calls in succession return
  \<open>ClientGracefulReconnect\<close> twice and the other two verdict checks not at all.
\<close>

theorem getChecks_twice_counterexample:
  "map name (fst (getChecks exact_sub (snd (getChecks exact_sub (new_SSERetryScenario 0))))) =
     [''ClientGracefulReconnect'', ''ClientGracefulReconnect'']
   \<and> count_list (map name (fst (getChecks exact_sub (snd (getChecks exact_sub (new_SSERetryScenario 0))))))
        ''ClientRespectsRetryField'' = 0
   \<and> count_list (map name (fst (getChecks exact_sub (snd (getChecks exact_sub (new_SSERetryScenario 0))))))
        ''ClientSendsLastEventId'' = 0"
  by (simp add: getChecks_def Let_def generateChecks_twice generateChecks_none
      new_SSERetryScenario_def noReconnectCheck_def)

text \<open>
  C10, amended. In every state, the first call returns the earlier checks followed by
  the verdicts that \<open>generateChecks\<close> appends, and the second call returns the earlier
  checks followed by those verdicts twice. The verdicts are the three checks
  \<open>ClientGracefulReconnect\<close>, \<open>ClientRespectsRetryField\<close>, \<open>ClientSendsLastEventId\<close> when a
  GET was observed, and \<open>ClientGracefulReconnect\<close> alone otherwise.
\<close>

theorem getChecks_not_idempotent:
  "(let appended = drop (length (checks s)) (fst (getChecks sub s))
    in fst (getChecks sub s) = checks s @ appended
       \<and> fst (getChecks sub (snd (getChecks sub s))) = checks s @ appended @ appended
       \<and> map name appended =
           (if getConnectionCount s < 1 then [''ClientGracefulReconnect'']
            else [''ClientGracefulReconnect'', ''ClientRespectsRetryField'',
                  ''ClientSendsLastEventId'']))"
proof -
  have "checks (generateChecks sub s) = checks s @ drop (length (checks s)) (checks (generateChecks sub s))"
    by (cases "getConnectionCount s < 1")
       (use generateChecks_none [where s = s and sub = sub] generateChecks_some [where s = s and sub = sub] in auto)
  then show ?thesis
    using generateChecks_twice [where s = s and sub = sub] verdict_names [where s = s and sub = sub]
    by (simp add: getChecks_def Let_def)
qed

section \<open>Properties of the client-role scenarios\<close>

text \<open>
  The \<open>retry:\<close> fields of a chunk are seen before the loop body runs for an event of the
  same chunk, and not before it runs for an event of an earlier chunk.
\<close>

lemma retry_fields_by_chunk:
  "map (\<lambda>c. map_of (details c) ''hasRetryField'')
     (fst (postStreamLoop no_parse space_trim [[Event priming_event, RetryField 500]]
             ([], initial_poll_vars))) = [Some (JBool True)]
   \<and> map (\<lambda>c. map_of (details c) ''hasRetryField'')
     (fst (postStreamLoop no_parse space_trim [[Event priming_event], [RetryField 500]]
             ([], initial_poll_vars))) = [Some (JBool False)]"
  by (simp add: postStreamEvent_def priming_event_def initial_poll_vars_def Let_def
      truthy_string_def)

subsection \<open>C8: the verdict on the concurrent streams\<close>

lemma promise_all_resolved: "promise_all (map Inr rs) = Inr rs"
  by (induction rs) simp_all

lemma count_results:
  assumes "\<And>i r. P (eventResult i r) = Q r"
  shows "length (filter P (map (\<lambda>(index, response). eventResult index response)
            (enumerate n rs))) = length (filter Q rs)"
  using assms by (induction rs arbitrary: n) simp_all

text \<open>
  \<open>includes\<close> finds a substring; the test on the content type is \<open>returns_sse\<close>; and the
  single read gives a value exactly when an event arrives or the body ends or stalls
  with no event.
\<close>

lemma includes_sublist: "str_includes v t = sublist t v"
proof (induction v)
  case Nil
  show ?case by auto
next
  case (Cons c s)
  have "(take (length t) (c # s) = t) = prefix t (c # s)"
    by (metis append_eq_conv_conj prefix_def)
  with Cons show ?case
    by (simp only: str_includes.simps sublist_Cons_right)
qed

lemma content_type_test: "is_event_stream (content_type r) = returns_sse r"
  by (simp add: is_event_stream_def content_type_def returns_sse_def includes_sublist
      split: option.splits)

lemma no_event: "([e. Event e \<leftarrow> xs] = []) = (\<not> list_ex is_event xs)"
proof (induction xs)
  case Nil
  show ?case by simp
next
  case (Cons x xs)
  then show ?case by (cases x) simp_all
qed

lemma first_read_value:
  "(\<exists>v. first_read st = Inr v) =
     (list_ex is_event (concat (chunks st)) \<or> ending st = EndOfStream \<or> ending st = Stalls)"
proof (cases "[e. Event e \<leftarrow> concat (chunks st)]")
  case Nil
  have n: "\<not> list_ex is_event (concat (chunks st))"
    using no_event [of "concat (chunks st)"] Nil by blast
  have "first_read st =
      (case ending st of EndOfStream \<Rightarrow> Inr JUndefined | Stalls \<Rightarrow> Inr JNull
       | StreamError err \<Rightarrow> Inl err)"
    unfolding first_read_def Nil by simp
  with n show ?thesis
    by (cases "ending st") simp_all
next
  case (Cons e es)
  have n: "list_ex is_event (concat (chunks st))"
    using no_event [of "concat (chunks st)"] Cons by auto
  have "first_read st = Inr (event_value e)"
    unfolding first_read_def Cons by simp
  with n show ?thesis by simp
qed

lemma result_error:
  "(result_type_is_sse (eventResult i r) \<and> \<not> has_error_key (eventResult i r))
     = (returns_sse r \<and> stream_functional r)"
proof (cases "returns_sse r")
  case False
  then show ?thesis
    by (simp add: eventResult_def content_type_test result_type_is_sse_def)
next
  case sse: True
  show ?thesis
  proof (cases "fr_body r")
    case None
    with sse show ?thesis
      by (simp add: eventResult_def content_type_test result_type_is_sse_def has_error_key_def
          stream_functional_def split: bool.splits)
  next
    case (Some st)
    show ?thesis
    proof (cases "fr_ok r")
      case False
      with sse Some show ?thesis
        by (auto simp add: eventResult_def content_type_test result_type_is_sse_def
            has_error_key_def stream_functional_def fr_ok_def)
    next
      case True
      then have ok: "200 \<le> fr_status r \<and> fr_status r \<le> 299"
        by (simp add: fr_ok_def)
      show ?thesis
      proof (cases "first_read st")
        case (Inl err)
        then have "\<not> (\<exists>v. first_read st = Inr v)" by simp
        then have "\<not> (list_ex is_event (concat (chunks st)) \<or> ending st = EndOfStream
            \<or> ending st = Stalls)"
          unfolding first_read_value .
        with sse Some True Inl show ?thesis
          by (simp add: eventResult_def content_type_test result_type_is_sse_def
              has_error_key_def stream_functional_def)
      next
        case (Inr v)
        then have "\<exists>v. first_read st = Inr v" by simp
        then have "list_ex is_event (concat (chunks st)) \<or> ending st = EndOfStream
            \<or> ending st = Stalls"
          unfolding first_read_value .
        with sse Some True Inr ok show ?thesis
          by (simp add: eventResult_def content_type_test result_type_is_sse_def
              has_error_key_def stream_functional_def)
      qed
    qed
  qed
qed

lemma length_filter_all: "(length (filter F ys) = length ys) = list_all F ys"
proof (induction ys)
  case Nil
  show ?case by simp
next
  case (Cons y ys)
  have "length (filter F ys) \<noteq> Suc (length ys)"
    using length_filter_le [of F ys] by arith
  with Cons show ?case by auto
qed

lemma length_filter_ex: "(0 < length (filter F ys)) = list_ex F ys"
  by (induction ys) auto

lemma functional_count:
  "length (filter (\<lambda>r. \<not> has_error_key r)
     (filter result_type_is_sse
        (map (\<lambda>(index, response). eventResult index response) (enumerate n rs))))
   = length (filter stream_functional (filter returns_sse rs))"
proof -
  have "length (filter (\<lambda>r. \<not> has_error_key r)
     (filter result_type_is_sse
        (map (\<lambda>(index, response). eventResult index response) (enumerate n rs))))
    = length (filter (\<lambda>r. result_type_is_sse r \<and> \<not> has_error_key r)
        (map (\<lambda>(index, response). eventResult index response) (enumerate n rs)))"
    by (simp add: conj_commute)
  also have "\<dots> = length (filter (\<lambda>r. returns_sse r \<and> stream_functional r) rs)"
    by (rule count_results) (rule result_error)
  also have "\<dots> = length (filter stream_functional (filter returns_sse rs))"
    by (simp add: conj_commute)
  finally show ?thesis .
qed

lemma sse_count:
  "length (filter is_event_stream (map content_type rs)) = length (filter returns_sse rs)"
proof -
  have "returns_sse = (\<lambda>x. is_event_stream (content_type x))"
    by (rule ext) (simp add: content_type_test)
  then show ?thesis
    by (simp add: length_filter_map comp_def)
qed

lemma streamsFunctionalCheck_status:
  "name (streamsFunctionalCheck rs) = ''ServerSSEStreamsFunctional''
   \<and> status (streamsFunctionalCheck rs) =
       (if filter returns_sse rs = [] then INFO
        else if list_all stream_functional (filter returns_sse rs) then SUCCESS
        else if list_ex stream_functional (filter returns_sse rs) then WARNING
        else FAILURE)"
proof -
  let ?sse = "filter returns_sse rs"
  have a: "(length ?sse > 0) = (?sse \<noteq> [])" by simp
  show ?thesis
    unfolding streamsFunctionalCheck_def Let_def functional_count sse_count
    using length_filter_all [of stream_functional ?sse]
      length_filter_ex [of stream_functional ?sse]
    by (simp del: length_greater_0_conv)
qed

text \<open>The example responses, by the two notions.\<close>

lemma example_responses:
  "returns_sse sse_ok" "returns_sse sse_cut" "returns_sse sse_silent" "returns_sse sse_broken"
  "returns_sse sse_unavailable" "\<not> returns_sse json_reply"
  "stream_functional sse_ok" "stream_functional sse_cut" "stream_functional sse_silent"
  "\<not> stream_functional sse_broken" "\<not> stream_functional sse_unavailable"
  by (simp_all add: returns_sse_def stream_functional_def sse_ok_def sse_cut_def sse_silent_def
      sse_broken_def sse_unavailable_def json_reply_def sublist_code prefix_code)

lemma answering_env_session:
  "construct_client (answering_env rs) = None" "construct_transport (answering_env rs) = None"
  "connect (answering_env rs) = None" "truthy_string (transport_sessionId (answering_env rs))"
  by (simp_all add: answering_env_def truthy_string_def)

lemma answering_env_fetch:
  "map (fetch (answering_env [a, b, c])) [0..<numStreams] = map Inr [a, b, c]"
  by (simp add: answering_env_def numStreams_def upt_conv_Cons)

text \<open>
  C8. When the session is set up and the three POSTs are answered, the run returns the
  acceptance check followed by the \<open>ServerSSEStreamsFunctional\<close> check. Its status is
  INFO when no response has \<open>text/event-stream\<close> in its content type; otherwise, counting
  among the responses that have it those with a status from 200 to 299 and a body on
  which an event arrives, or which ends or stalls without one: SUCCESS when all are such,
  WARNING when some are and some are not, FAILURE when none is.
\<close>

theorem streams_functional_verdict:
  "construct_client env = None \<Longrightarrow> construct_transport env = None \<Longrightarrow> connect env = None \<Longrightarrow>
   truthy_string (transport_sessionId env) \<Longrightarrow>
   map (fetch env) [0..<numStreams] = map Inr rs \<Longrightarrow>
   length rs = 3
   \<and> multipleStreamsRun env =
       Inr \<lparr> returned = [acceptsStreamsCheck rs, streamsFunctionalCheck rs],
             close_called = True \<rparr>
   \<and> name (streamsFunctionalCheck rs) = ''ServerSSEStreamsFunctional''
   \<and> status (streamsFunctionalCheck rs) =
       (if filter returns_sse rs = [] then INFO
        else if list_all stream_functional (filter returns_sse rs) then SUCCESS
        else if list_ex stream_functional (filter returns_sse rs) then WARNING
        else FAILURE)"
proof -
  assume a: "construct_client env = None" "construct_transport env = None" "connect env = None"
    "truthy_string (transport_sessionId env)"
    and f: "map (fetch env) [0..<numStreams] = map Inr rs"
  from f have "length (map (fetch env) [0..<numStreams])
      = length (map Inr rs :: (thrown + fetch_response) list)"
    by simp
  then have l: "length rs = 3" by (simp add: numStreams_def)
  have r: "multipleStreamsRun env =
       Inr \<lparr> returned = [acceptsStreamsCheck rs, streamsFunctionalCheck rs],
             close_called = True \<rparr>"
    using a by (simp add: multipleStreamsRun_def multipleStreamsBody_def catch_finally_def
        cleanup_def f promise_all_resolved split: option.splits)
  from l r streamsFunctionalCheck_status [of rs] show ?thesis by simp
qed

theorem streams_functional_verdict_witness:
  "construct_client (answering_env [sse_ok, sse_broken, json_reply]) = None
   \<and> construct_transport (answering_env [sse_ok, sse_broken, json_reply]) = None
   \<and> connect (answering_env [sse_ok, sse_broken, json_reply]) = None
   \<and> truthy_string (transport_sessionId (answering_env [sse_ok, sse_broken, json_reply]))
   \<and> map (fetch (answering_env [sse_ok, sse_broken, json_reply])) [0..<numStreams]
       = map Inr [sse_ok, sse_broken, json_reply]
   \<and> map_sum id (\<lambda>r. map status (returned r))
        (multipleStreamsRun (answering_env [sse_ok, sse_broken, json_reply]))
       = Inr [SUCCESS, WARNING]
   \<and> map_sum id (\<lambda>r. map status (returned r))
        (multipleStreamsRun (answering_env [sse_cut, json_reply, sse_silent]))
       = Inr [SUCCESS, SUCCESS]
   \<and> map_sum id (\<lambda>r. map status (returned r))
        (multipleStreamsRun (answering_env [sse_broken, json_reply, sse_unavailable]))
       = Inr [FAILURE, FAILURE]
   \<and> map_sum id (\<lambda>r. map status (returned r))
        (multipleStreamsRun (answering_env [json_reply, json_reply, json_reply]))
       = Inr [SUCCESS, INFO]"
proof -
  have ok: "fr_ok sse_ok" "fr_ok sse_cut" "fr_ok sse_silent" "fr_ok sse_broken"
    "\<not> fr_ok sse_unavailable" "fr_ok json_reply"
    by (simp_all add: fr_ok_def sse_ok_def sse_cut_def sse_silent_def sse_broken_def
        sse_unavailable_def json_reply_def)
  have c: "\<And>rs. status (acceptsStreamsCheck rs) = (if list_all fr_ok rs then SUCCESS else FAILURE)"
    by (simp add: acceptsStreamsCheck_def Let_def)
  note v = streams_functional_verdict [OF answering_env_session answering_env_fetch]
  from v [of sse_ok sse_broken json_reply] v [of sse_cut json_reply sse_silent]
    v [of sse_broken json_reply sse_unavailable] v [of json_reply json_reply json_reply]
  show ?thesis
    by (simp add: answering_env_session answering_env_fetch example_responses ok c)
qed

subsection \<open>C9: no throw leaves run\<close>

text \<open>Where the \<open>try\<close> blocks throw.\<close>

lemma multipleStreams_throw_points:
  "(exit (multipleStreamsBody env) = Throws e) =
     (construct_client env = Some e
      \<or> construct_client env = None \<and> construct_transport env = Some e
      \<or> construct_client env = None \<and> construct_transport env = None \<and> connect env = Some e
      \<or> construct_client env = None \<and> construct_transport env = None \<and> connect env = None
        \<and> truthy_string (transport_sessionId env)
        \<and> promise_all (map (fetch env) [0..<numStreams]) = Inl e)"
  by (auto simp add: multipleStreamsBody_def split: option.splits sum.splits)

lemma polling_throws_when_post_fails:
  "construct_client env = None \<Longrightarrow> construct_transport env = None \<Longrightarrow> connect env = None \<Longrightarrow>
   fetch env 0 = Inl e \<Longrightarrow> exit (pollingBody env serverUrl parse trim) = Throws e"
  by (simp add: pollingBody_def pollingProbe_def loggingFetch_def Let_def)

lemma polling_throws_when_read_fails:
  "construct_client env = None \<Longrightarrow> construct_transport env = None \<Longrightarrow> connect env = None \<Longrightarrow>
   fetch env 0 = Inr r \<Longrightarrow> fr_ok r \<Longrightarrow> is_event_stream (content_type r) \<Longrightarrow>
   fr_body r = Some st \<Longrightarrow> ending st = StreamError e \<Longrightarrow>
   exit (pollingBody env serverUrl parse trim) = Throws e"
  by (simp add: pollingBody_def pollingProbe_def loggingFetch_def pollingStream_def Let_def
      split: prod.splits)

text \<open>
  C9. In both client-role scenarios \<open>run\<close> always returns: no throw leaves it. When the
  \<open>try\<close> block throws, the returned array is the checks pushed up to the throw followed
  by exactly one check with status FAILURE, the id and name of the scenario's error
  check, and the message \<open>Error: \<close> followed by the \<open>message\<close> of a thrown \<open>Error\<close>, or by
  the string of any other thrown value; when it does not throw, the returned array is
  the checks pushed. On every path the \<open>finally\<close> block runs, and it calls
  \<open>client.close()\<close> whenever the client had been constructed, whatever \<open>close\<close> then does.
\<close>

theorem run_catches_every_throw:
  "(let b = multipleStreamsBody env
    in (exit b = Throws (ErrorObject (JsError n m)) \<longrightarrow>
          multipleStreamsRun env =
            Inr \<lparr> returned =
                    pushed b @ [\<lparr> check_id = ''server-sse-multiple-streams-error'',
                                  name = ''ServerSSEMultipleStreamsTest'',
                                  status = FAILURE,
                                  errorMessage = Some (''Error: '' @ m),
                                  details = [] \<rparr>],
                  close_called = (construct_client env = None) \<rparr>)
       \<and> (exit b = Throws (OtherValue t) \<longrightarrow>
          multipleStreamsRun env =
            Inr \<lparr> returned =
                    pushed b @ [\<lparr> check_id = ''server-sse-multiple-streams-error'',
                                  name = ''ServerSSEMultipleStreamsTest'',
                                  status = FAILURE,
                                  errorMessage = Some (''Error: '' @ t),
                                  details = [] \<rparr>],
                  close_called = (construct_client env = None) \<rparr>)
       \<and> (exit b = Completes \<longrightarrow>
          multipleStreamsRun env =
            Inr \<lparr> returned = pushed b, close_called = (construct_client env = None) \<rparr>)
       \<and> (\<exists>r. multipleStreamsRun env = Inr r))
   \<and> (let b = pollingBody env' serverUrl parse trim
      in (exit b = Throws (ErrorObject (JsError n' m')) \<longrightarrow>
            pollingRun env' serverUrl parse trim =
              Inr \<lparr> returned =
                      pushed b @ [\<lparr> check_id = ''server-sse-polling-error'',
                                    name = ''ServerSSEPollingTest'',
                                    status = FAILURE,
                                    errorMessage = Some (''Error: '' @ m'),
                                    details = [] \<rparr>],
                    close_called = (construct_client env' = None) \<rparr>)
         \<and> (exit b = Throws (OtherValue t') \<longrightarrow>
            pollingRun env' serverUrl parse trim =
              Inr \<lparr> returned =
                      pushed b @ [\<lparr> check_id = ''server-sse-polling-error'',
                                    name = ''ServerSSEPollingTest'',
                                    status = FAILURE,
                                    errorMessage = Some (''Error: '' @ t'),
                                    details = [] \<rparr>],
                    close_called = (construct_client env' = None) \<rparr>)
         \<and> (exit b = Completes \<longrightarrow>
            pollingRun env' serverUrl parse trim =
              Inr \<lparr> returned = pushed b, close_called = (construct_client env' = None) \<rparr>)
         \<and> (\<exists>r. pollingRun env' serverUrl parse trim = Inr r))"
proof -
  have m: "client_assigned (multipleStreamsBody env) = (construct_client env = None)"
    by (simp add: multipleStreamsBody_def split: option.splits sum.splits)
  have p: "client_assigned (pollingBody env' serverUrl parse trim) = (construct_client env' = None)"
    by (simp add: pollingBody_def Let_def split: option.splits prod.splits)
  have c: "\<And>en assigned. cleanup en assigned = (assigned, None)"
    by (simp add: cleanup_def split: option.splits)
  show ?thesis
    by (simp add: Let_def multipleStreamsRun_def pollingRun_def catch_finally_def
        failureCheck_def m p c)
qed

theorem run_catches_every_throw_witness:
  "exit (multipleStreamsBody refusing_env)
     = Throws (ErrorObject (JsError ''Error'' ''connect ECONNREFUSED 127.0.0.1:3000''))
   \<and> multipleStreamsRun refusing_env =
       Inr \<lparr> returned = [\<lparr> check_id = ''server-sse-multiple-streams-error'',
                            name = ''ServerSSEMultipleStreamsTest'',
                            status = FAILURE,
                            errorMessage = Some ''Error: connect ECONNREFUSED 127.0.0.1:3000'',
                            details = [] \<rparr>],
             close_called = True \<rparr>
   \<and> exit (pollingBody (answering_env [sse_cut]) ''http://localhost:3000'' no_parse space_trim)
     = Throws (OtherValue ''socket hang up'')
   \<and> map_sum id (\<lambda>r. (map (\<lambda>c. (check_id c, status c, errorMessage c)) (returned r),
                       close_called r))
        (pollingRun (answering_env [sse_cut]) ''http://localhost:3000'' no_parse space_trim)
       = Inr ([(''outgoing-request'', INFO, None),
               (''incoming-response'', INFO, None),
               (''incoming-sse-event'', INFO, None),
               (''server-sse-polling-error'', FAILURE, Some ''Error: socket hang up'')],
              True)
   \<and> exit (pollingBody sessionless_env ''http://localhost:3000'' no_parse space_trim)
     = Throws (ErrorObject (JsError ''TypeError'' ''fetch failed''))
   \<and> map_sum id (\<lambda>r. (map (\<lambda>c. (check_id c, status c, errorMessage c)) (returned r),
                       close_called r))
        (pollingRun sessionless_env ''http://localhost:3000'' no_parse space_trim)
       = Inr ([(''server-sse-polling-session'', WARNING, None),
               (''outgoing-request'', INFO, None),
               (''server-sse-polling-error'', FAILURE, Some ''Error: fetch failed'')],
              True)
   \<and> exit (multipleStreamsBody mixed_env) = Completes
   \<and> map_sum id (\<lambda>r. (map check_id (returned r), close_called r)) (multipleStreamsRun mixed_env)
       = Inr ([''server-accepts-multiple-post-streams'', ''server-sse-streams-functional''],
              True)"
proof -
  have a: "exit (multipleStreamsBody refusing_env)
     = Throws (ErrorObject (JsError ''Error'' ''connect ECONNREFUSED 127.0.0.1:3000''))"
    and a': "pushed (multipleStreamsBody refusing_env) = []"
    by (simp_all add: multipleStreamsBody_def refusing_env_def)
  have b: "exit (pollingBody sessionless_env ''http://localhost:3000'' no_parse space_trim)
     = Throws (ErrorObject (JsError ''TypeError'' ''fetch failed''))"
    and b': "map (\<lambda>c. (check_id c, status c, errorMessage c))
         (pushed (pollingBody sessionless_env ''http://localhost:3000'' no_parse space_trim))
       = [(''server-sse-polling-session'', WARNING, None), (''outgoing-request'', INFO, None)]"
    by (simp_all add: pollingBody_def sessionless_env_def pollingProbe_def loggingFetch_def
        Let_def truthy_string_def plainCheck_def outgoingRequestCheck_def)
  have c: "exit (multipleStreamsBody mixed_env) = Completes"
    and c': "map check_id (pushed (multipleStreamsBody mixed_env))
       = [''server-accepts-multiple-post-streams'', ''server-sse-streams-functional'']"
    by (simp_all add: multipleStreamsBody_def mixed_env_def truthy_string_def numStreams_def
        upt_conv_Cons acceptsStreamsCheck_def streamsFunctionalCheck_def Let_def)
  have s: "exit (pollingBody (answering_env [sse_cut]) ''http://localhost:3000'' no_parse
        space_trim) = Throws (OtherValue ''socket hang up'')"
    and s': "map (\<lambda>c. (check_id c, status c, errorMessage c))
         (pushed (pollingBody (answering_env [sse_cut]) ''http://localhost:3000'' no_parse
            space_trim))
       = [(''outgoing-request'', INFO, None), (''incoming-response'', INFO, None),
          (''incoming-sse-event'', INFO, None)]"
    by code_simp+
  have d: "construct_client refusing_env = None" "construct_client sessionless_env = None"
    "construct_client mixed_env = None" "construct_client (answering_env [sse_cut]) = None"
    by (simp_all add: refusing_env_def sessionless_env_def mixed_env_def answering_env_def)
  from run_catches_every_throw [where env = refusing_env and env' = "answering_env [sse_cut]"
      and serverUrl = "''http://localhost:3000''" and parse = no_parse and trim = space_trim
      and n = "''Error''" and m = "''connect ECONNREFUSED 127.0.0.1:3000''"
      and t' = "''socket hang up''"]
    run_catches_every_throw [where env = mixed_env and env' = sessionless_env
      and serverUrl = "''http://localhost:3000''" and parse = no_parse and trim = space_trim
      and n' = "''TypeError''" and m' = "''fetch failed''"]
  show ?thesis
    using a a' b b' c c' s s' d by (simp add: Let_def)
qed

end
